theory Spec2Isabelle
  imports Main
begin

section \<open>Go library functions used by the sources\<close>

text \<open>
  Go strings are byte sequences; they are modelled as \<open>string\<close> (a list of 8-bit
  characters). The functions below follow the documented behaviour of the Go package
  \<^verbatim>\<open>strings\<close> for the calls that occur in the sources.
\<close>

definition HasPrefix :: "string \<Rightarrow> string \<Rightarrow> bool" where
  "HasPrefix s p = (take (length p) s = p)"

definition HasSuffix :: "string \<Rightarrow> string \<Rightarrow> bool" where
  "HasSuffix s x = (length x \<le> length s \<and> drop (length s - length x) s = x)"

fun Contains :: "string \<Rightarrow> string \<Rightarrow> bool" where
  "Contains [] sub = (sub = [])"
| "Contains (c # cs) sub = (HasPrefix (c # cs) sub \<or> Contains cs sub)"

definition TrimPrefix :: "string \<Rightarrow> string \<Rightarrow> string" where
  "TrimPrefix s p = (if HasPrefix s p then drop (length p) s else s)"

definition TrimSuffix :: "string \<Rightarrow> string \<Rightarrow> string" where
  "TrimSuffix s x = (if HasSuffix s x then take (length s - length x) s else s)"

text \<open>\<^verbatim>\<open>strings.Index\<close>: the position of the first occurrence, \<open>-1\<close> when there is none.\<close>

fun Index :: "string \<Rightarrow> string \<Rightarrow> int" where
  "Index [] sub = (if sub = [] then 0 else - 1)"
| "Index (c # cs) sub =
     (if HasPrefix (c # cs) sub then 0
      else (let i = Index cs sub in if i = - 1 then - 1 else i + 1))"

text \<open>\<^verbatim>\<open>strings.Replace(s, old, new, 1)\<close>: only the first occurrence is replaced.\<close>

fun Replace1 :: "string \<Rightarrow> string \<Rightarrow> string \<Rightarrow> string" where
  "Replace1 [] old new = (if old = [] then new else [])"
| "Replace1 (c # cs) old new =
     (if HasPrefix (c # cs) old then new @ drop (length old) (c # cs)
      else c # Replace1 cs old new)"

text \<open>\<^verbatim>\<open>strings.Split(s, sep)\<close> for a separator of one byte (the sources split on \<open>=\<close>).\<close>

fun SplitByte :: "string \<Rightarrow> char \<Rightarrow> string list" where
  "SplitByte [] c = [[]]"
| "SplitByte (x # xs) c =
     (if x = c then [] # SplitByte xs c
      else (case SplitByte xs c of [] \<Rightarrow> [[x]] | p # ps \<Rightarrow> (x # p) # ps))"

text \<open>\<^verbatim>\<open>strings.Join\<close>.\<close>

fun Join :: "string list \<Rightarrow> string \<Rightarrow> string" where
  "Join [] sep = []"
| "Join [x] sep = x"
| "Join (x # y # ys) sep = x @ sep @ Join (y # ys) sep"

text \<open>
  Decimal rendering of an integer, as \<^verbatim>\<open>fmt.Sprintf("%d", n)\<close> and
  \<^verbatim>\<open>strconv.Itoa\<close> produce it.
\<close>

definition digit_char :: "nat \<Rightarrow> char" where
  "digit_char d =
     (if d = 0 then CHR ''0'' else if d = 1 then CHR ''1'' else if d = 2 then CHR ''2''
      else if d = 3 then CHR ''3'' else if d = 4 then CHR ''4'' else if d = 5 then CHR ''5''
      else if d = 6 then CHR ''6'' else if d = 7 then CHR ''7'' else if d = 8 then CHR ''8''
      else CHR ''9'')"

fun digits :: "nat \<Rightarrow> string" where
  "digits n = (if n < 10 then [digit_char n] else digits (n div 10) @ [digit_char (n mod 10)])"

declare digits.simps [simp del]

definition Itoa :: "int \<Rightarrow> string" where
  "Itoa i = (if i < 0 then CHR ''-'' # digits (nat (- i)) else digits (nat i))"

text \<open>
  Machine integers. \<^verbatim>\<open>int64\<close> arithmetic wraps around; integer division truncates
  towards zero; the conversion \<^verbatim>\<open>rune(n)\<close> keeps the low 32 bits as a signed value.
\<close>

definition int64 :: "int \<Rightarrow> int" where
  "int64 x = (x + 2 ^ 63) mod 2 ^ 64 - 2 ^ 63"

definition quo :: "int \<Rightarrow> int \<Rightarrow> int" where
  "quo a b = sgn a * sgn b * (\<bar>a\<bar> div \<bar>b\<bar>)"

definition rune :: "int \<Rightarrow> int" where
  "rune x = (x + 2 ^ 31) mod 2 ^ 32 - 2 ^ 31"

text \<open>
  \<^verbatim>\<open>string(r)\<close> for a rune \<open>r\<close>: the UTF-8 encoding of the code point, and the
  encoding of U+FFFD for a value that is not a valid code point.
\<close>

definition byte :: "int \<Rightarrow> char" where
  "byte n = char_of n"

definition string_of_rune :: "int \<Rightarrow> string" where
  "string_of_rune r =
     (if r < 0 \<or> 1114111 < r \<or> (55296 \<le> r \<and> r \<le> 57343) then [byte 239, byte 191, byte 189]
      else if r < 128 then [byte r]
      else if r < 2048 then [byte (192 + r div 64), byte (128 + r mod 64)]
      else if r < 65536 then
        [byte (224 + r div 4096), byte (128 + (r div 64) mod 64), byte (128 + r mod 64)]
      else [byte (240 + r div 262144), byte (128 + (r div 4096) mod 64),
            byte (128 + (r div 64) mod 64), byte (128 + r mod 64)])"

text \<open>\<^verbatim>\<open>time.Duration\<close> counts nanoseconds in an \<^verbatim>\<open>int64\<close>.\<close>

definition Second :: int where
  "Second = 1000000000"

definition Milliseconds :: "int \<Rightarrow> int" where
  "Milliseconds d = quo d 1000000"

text \<open>\<^verbatim>\<open>Time.Sub\<close> saturates at the least and greatest duration.\<close>

definition time_Sub :: "int \<Rightarrow> int \<Rightarrow> int" where
  "time_Sub t u =
     (let d = t - u in
      if d < - (2 ^ 63) then - (2 ^ 63) else if 2 ^ 63 - 1 < d then 2 ^ 63 - 1 else d)"

text \<open>
  The sources of nondeterminism, \<^verbatim>\<open>uuid.New()\<close> and \<^verbatim>\<open>time.Now()\<close>, are read from
  a \<open>world\<close>: the sequence of values each will return, and how many have been taken.
\<close>

record world =
  uuid_seq :: "nat \<Rightarrow> string"
  uuid_taken :: nat
  clock_seq :: "nat \<Rightarrow> int"
  clock_taken :: nat

definition uuid_New :: "world \<Rightarrow> string \<times> world" where
  "uuid_New w = (uuid_seq w (uuid_taken w), w\<lparr>uuid_taken := Suc (uuid_taken w)\<rparr>)"

definition time_Now :: "world \<Rightarrow> int \<times> world" where
  "time_Now w = (clock_seq w (clock_taken w), w\<lparr>clock_taken := Suc (clock_taken w)\<rparr>)"

definition time_Since :: "world \<Rightarrow> int \<Rightarrow> int \<times> world" where
  "time_Since w t = (let (n, w') = time_Now w in (time_Sub n t, w'))"

text \<open>\<^verbatim>\<open>http.Header\<close>: canonical field name to its values; \<^verbatim>\<open>Get\<close> gives the first.\<close>

type_synonym header = "(string \<times> string list) list"

definition Header_Get :: "header \<Rightarrow> string \<Rightarrow> string" where
  "Header_Get h k = (case map_of h k of Some (v # vs) \<Rightarrow> v | _ \<Rightarrow> [])"

text \<open>\<^verbatim>\<open>http.StatusText\<close>: the reason phrase of a status code, empty for an unknown code.\<close>

definition StatusText :: "int \<Rightarrow> string" where
  "StatusText code =
     (case map_of
        [(100, ''Continue''), (101, ''Switching Protocols''), (102, ''Processing''),
         (103, ''Early Hints''), (200, ''OK''), (201, ''Created''), (202, ''Accepted''),
         (203, ''Non-Authoritative Information''), (204, ''No Content''),
         (205, ''Reset Content''), (206, ''Partial Content''), (207, ''Multi-Status''),
         (208, ''Already Reported''), (226, ''IM Used''), (300, ''Multiple Choices''),
         (301, ''Moved Permanently''), (302, ''Found''), (303, ''See Other''),
         (304, ''Not Modified''), (305, ''Use Proxy''), (307, ''Temporary Redirect''),
         (308, ''Permanent Redirect''), (400, ''Bad Request''), (401, ''Unauthorized''),
         (402, ''Payment Required''), (403, ''Forbidden''), (404, ''Not Found''),
         (405, ''Method Not Allowed''), (406, ''Not Acceptable''),
         (407, ''Proxy Authentication Required''), (408, ''Request Timeout''),
         (409, ''Conflict''), (410, ''Gone''), (411, ''Length Required''),
         (412, ''Precondition Failed''), (413, ''Request Entity Too Large''),
         (414, ''Request URI Too Long''), (415, ''Unsupported Media Type''),
         (416, ''Requested Range Not Satisfiable''), (417, ''Expectation Failed''),
         (418, ''I'' @ [CHR 0x27] @ ''m a teapot''), (421, ''Misdirected Request''),
         (422, ''Unprocessable Entity''), (423, ''Locked''), (424, ''Failed Dependency''),
         (425, ''Too Early''), (426, ''Upgrade Required''), (428, ''Precondition Required''),
         (429, ''Too Many Requests''), (431, ''Request Header Fields Too Large''),
         (451, ''Unavailable For Legal Reasons''), (500, ''Internal Server Error''),
         (501, ''Not Implemented''), (502, ''Bad Gateway''), (503, ''Service Unavailable''),
         (504, ''Gateway Timeout''), (505, ''HTTP Version Not Supported''),
         (506, ''Variant Also Negotiates''), (507, ''Insufficient Storage''),
         (508, ''Loop Detected''), (510, ''Not Extended''),
         (511, ''Network Authentication Required'')] code
      of Some t \<Rightarrow> t | None \<Rightarrow> [])"


section \<open>Data model (package store)\<close>

record Message =
  ID :: string
  TraceID :: string
  Timestamp :: int
  Direction :: string
  FromAgent :: string
  ToAgent :: string
  Method :: string
  URL :: string
  Headers :: string
  Body :: string
  DurationMs :: int
  StatusCode :: int
  Error :: string
  RequestID :: string
  ContentType :: string
  Size :: int

record Agent =
  agent_ID :: string
  agent_URL :: string
  Name :: string
  Description :: string
  Version :: string
  Skills :: string
  FirstSeen :: int

record Insight =
  insight_ID :: string
  insight_TraceID :: string
  MessageID :: string
  Type :: string
  Category :: string
  Title :: string
  Details :: string
  insight_Timestamp :: int

text \<open>The zero value of \<^verbatim>\<open>store.Message\<close>, from which a composite literal starts.\<close>

definition Message_zero :: Message where
  "Message_zero =
     \<lparr>ID = [], TraceID = [], Timestamp = 0, Direction = [], FromAgent = [], ToAgent = [],
      Method = [], URL = [], Headers = [], Body = [], DurationMs = 0, StatusCode = 0,
      Error = [], RequestID = [], ContentType = [], Size = 0\<rparr>"

text \<open>
  JSON values, and the decoded forms of the JSON-RPC envelopes and of the agent card.
  The \<^verbatim>\<open>id\<close> of an envelope is an \<^verbatim>\<open>interface{}\<close>: absent or null (\<open>None\<close>), a
  string, a number (held as the value of the conversion \<^verbatim>\<open>int(v)\<close> the sources apply
  to it), or any other JSON value.
\<close>

datatype jvalue =
  JNull | JString string | JInt int | JArray "jvalue list" | JObject "(string \<times> jvalue) list"

datatype json_id = IdString string | IdNumber int | IdOther jvalue

record A2ARequest =
  rpc_Method :: string
  rpc_ID :: "json_id option"

record A2AError =
  err_Code :: int
  err_Message :: string

record A2AResponse =
  rpc_Error :: "A2AError option"

record AgentCard =
  card_Name :: string
  card_Description :: string
  card_Version :: string
  card_Skills :: jvalue

text \<open>
  Package \<^verbatim>\<open>encoding/json\<close> is outside the repository. Its functions are parameters
  of the model: each decoder gives \<open>None\<close> where \<^verbatim>\<open>json.Unmarshal\<close> returns an error;
  \<open>Unmarshal_object\<close> gives the member names of the decoded
  \<^verbatim>\<open>map[string]interface{}\<close>.
\<close>

record json_lib =
  Unmarshal_A2ARequest :: "string \<Rightarrow> A2ARequest option"
  Unmarshal_A2AResponse :: "string \<Rightarrow> A2AResponse option"
  Unmarshal_AgentCard :: "string \<Rightarrow> AgentCard option"
  Unmarshal_object :: "string \<Rightarrow> string list option"
  Marshal :: "jvalue \<Rightarrow> string"
  MarshalIndent :: "jvalue \<Rightarrow> string"

section \<open>Interceptor (package proxy)\<close>

text \<open>
  An \<^verbatim>\<open>io.ReadCloser\<close> body: absent, or a stream whose complete reading either fails
  (\<open>None\<close>) or gives its bytes.
\<close>

datatype body_reader = NoBody | Stream "string option"

record http_request =
  req_Method :: string
  req_URL :: string
  req_Path :: string
  req_RequestURI :: string
  req_Host :: string
  req_Header :: header
  req_Body :: body_reader

record http_response =
  resp_StatusCode :: int
  resp_Header :: header
  resp_Body :: "string option"

definition IsA2ARequest :: "http_request \<Rightarrow> bool" where
  "IsA2ARequest r =
     (let contentType = Header_Get (req_Header r) ''Content-Type'' in
      if \<not> Contains contentType ''application/json'' then False
      else if req_Method r \<noteq> ''POST'' then
        (if req_Method r = ''GET'' \<and> Contains (req_Path r) ''/.well-known/agent.json''
         then True else False)
      else True)"

definition extractAgentFromURL :: "string \<Rightarrow> string" where
  "extractAgentFromURL urlStr0 =
     (let urlStr1 = TrimPrefix urlStr0 ''http://'';
          urlStr2 = TrimPrefix urlStr1 ''https://'';
          idx = Index urlStr2 ''/''
      in if idx \<noteq> - 1 then take (nat idx) urlStr2 else urlStr2)"

definition formatRequestID :: "json_lib \<Rightarrow> json_id \<Rightarrow> string" where
  "formatRequestID js v =
     (case v of
        IdString s \<Rightarrow> s
      | IdNumber n \<Rightarrow>
          TrimSuffix (TrimSuffix (Replace1 (string_of_rune (rune n)) ''.'' []) ''0'') ''.''
      | IdOther v \<Rightarrow> Marshal js v)"

text \<open>The header snapshot: the first value of every field that has one.\<close>

definition first_values :: "header \<Rightarrow> jvalue" where
  "first_values h =
     JObject (map (\<lambda>(k, vs). (k, JString (hd vs))) (filter (\<lambda>(k, vs). vs \<noteq> []) h))"

definition ParseRequest ::
  "json_lib \<Rightarrow> world \<Rightarrow> http_request \<Rightarrow> string \<Rightarrow> string \<Rightarrow> Message \<times> world" where
  "ParseRequest js w r body traceID =
     (let (now, w1) = time_Now w;
          msg0 = Message_zero\<lparr>TraceID := traceID, Timestamp := now, Direction := ''request'',
                   URL := req_URL r,
                   ContentType := Header_Get (req_Header r) ''Content-Type'',
                   Size := int (length body), Body := body\<rparr>;
          msg1 = msg0\<lparr>Headers := Marshal js (first_values (req_Header r))\<rparr>;
          msg2 = msg1\<lparr>ToAgent := extractAgentFromURL (req_URL r)\<rparr>;
          msg3 = (case Unmarshal_A2ARequest js body of
                    None \<Rightarrow> msg2
                  | Some a2aReq \<Rightarrow>
                      (let m = msg2\<lparr>Method := rpc_Method a2aReq\<rparr>
                       in case rpc_ID a2aReq of
                            None \<Rightarrow> m
                          | Some v \<Rightarrow> m\<lparr>RequestID := formatRequestID js v\<rparr>))
      in (msg3, w1))"

definition ParseResponse ::
  "json_lib \<Rightarrow> world \<Rightarrow> http_response \<Rightarrow> string \<Rightarrow> Message \<Rightarrow> int \<Rightarrow> Message \<times> world" where
  "ParseResponse js w resp body requestMsg duration =
     (let (now, w1) = time_Now w;
          msg0 = Message_zero\<lparr>TraceID := TraceID requestMsg, Timestamp := now,
                   Direction := ''response'', URL := URL requestMsg,
                   FromAgent := ToAgent requestMsg, StatusCode := resp_StatusCode resp,
                   ContentType := Header_Get (resp_Header resp) ''Content-Type'',
                   Size := int (length body), Body := body,
                   DurationMs := Milliseconds duration, RequestID := RequestID requestMsg\<rparr>;
          msg1 = msg0\<lparr>Headers := Marshal js (first_values (resp_Header resp))\<rparr>;
          msg2 = (case Unmarshal_A2AResponse js body of
                    None \<Rightarrow> msg1
                  | Some a2aResp \<Rightarrow>
                      (case rpc_Error a2aResp of
                         None \<Rightarrow> msg1
                       | Some e \<Rightarrow> msg1\<lparr>Error := err_Message e\<rparr>));
          msg3 = (if 400 \<le> resp_StatusCode resp
                  then msg2\<lparr>Error := StatusText (resp_StatusCode resp)\<rparr> else msg2)
      in (msg3, w1))"

definition ParseAgentCard :: "json_lib \<Rightarrow> world \<Rightarrow> string \<Rightarrow> string \<Rightarrow> Agent option \<times> world" where
  "ParseAgentCard js w body url =
     (case Unmarshal_AgentCard js body of
        None \<Rightarrow> (None, w)
      | Some c \<Rightarrow>
          (let skillsJSON = Marshal js (card_Skills c);
               (now, w1) = time_Now w
           in (Some \<lparr>agent_ID = [], agent_URL = url, Name = card_Name c,
                      Description = card_Description c, Version = card_Version c,
                      Skills = skillsJSON, FirstSeen = now\<rparr>, w1)))"

text \<open>\<open>ReadBody\<close> gives the bytes and a fresh reader over them, or the read error.\<close>

definition ReadBody :: "body_reader \<Rightarrow> (string \<times> body_reader) option" where
  "ReadBody body =
     (case body of
        NoBody \<Rightarrow> Some ([], NoBody)
      | Stream None \<Rightarrow> None
      | Stream (Some data) \<Rightarrow> Some (data, Stream (Some data)))"

section \<open>Store (package store)\<close>

text \<open>
  The SQLite tables, each a list of rows in insertion order. \<open>id\<close> is the primary key of
  every table and \<open>url\<close> is declared \<open>UNIQUE\<close> in \<open>agents\<close>; an \<open>INSERT\<close> that would
  break a key fails and changes nothing. Foreign keys are not enforced (SQLite leaves them
  off unless the connection turns them on), and failures of the database itself are not
  modelled. Every write returns whether its \<open>err\<close> is \<open>nil\<close>, and the struct it was
  given, which it may have completed with an identifier.
\<close>

record store =
  messages :: "Message list"
  agents :: "Agent list"
  insights :: "Insight list"

definition SaveMessage :: "world \<Rightarrow> store \<Rightarrow> Message \<Rightarrow> bool \<times> Message \<times> store \<times> world" where
  "SaveMessage w s msg =
     (let (msg1, w1) =
            (if ID msg = [] then (let (u, w') = uuid_New w in (msg\<lparr>ID := u\<rparr>, w'))
             else (msg, w))
      in if ID msg1 \<in> set (map ID (messages s)) then (False, msg1, s, w1)
         else (True, msg1, s\<lparr>messages := messages s @ [msg1]\<rparr>, w1))"

definition GetMessages :: "store \<Rightarrow> string \<Rightarrow> Message list" where
  "GetMessages s traceID = sort_key Timestamp (filter (\<lambda>m. TraceID m = traceID) (messages s))"

text \<open>
  \<^verbatim>\<open>INSERT ... ON CONFLICT(url) DO UPDATE SET name = excluded.name, ...\<close>: where a row
  with the URL exists, the insertion is left out and that row takes the four named columns
  of the new one.
\<close>

definition SaveAgent :: "world \<Rightarrow> store \<Rightarrow> Agent \<Rightarrow> bool \<times> Agent \<times> store \<times> world" where
  "SaveAgent w s agent =
     (let (agent1, w1) =
            (if agent_ID agent = [] then (let (u, w') = uuid_New w in (agent\<lparr>agent_ID := u\<rparr>, w'))
             else (agent, w))
      in if agent_URL agent1 \<in> set (map agent_URL (agents s))
         then (True, agent1,
               s\<lparr>agents :=
                   map (\<lambda>row. if agent_URL row = agent_URL agent1
                               then row\<lparr>Name := Name agent1, Description := Description agent1,
                                        Version := Version agent1, Skills := Skills agent1\<rparr>
                               else row) (agents s)\<rparr>, w1)
         else if agent_ID agent1 \<in> set (map agent_ID (agents s)) then (False, agent1, s, w1)
         else (True, agent1, s\<lparr>agents := agents s @ [agent1]\<rparr>, w1))"

definition GetAgents :: "store \<Rightarrow> Agent list" where
  "GetAgents s = rev (sort_key FirstSeen (agents s))"

definition SaveInsight :: "world \<Rightarrow> store \<Rightarrow> Insight \<Rightarrow> bool \<times> Insight \<times> store \<times> world" where
  "SaveInsight w s insight =
     (let (insight1, w1) =
            (if insight_ID insight = []
             then (let (u, w') = uuid_New w in (insight\<lparr>insight_ID := u\<rparr>, w'))
             else (insight, w))
      in if insight_ID insight1 \<in> set (map insight_ID (insights s)) then (False, insight1, s, w1)
         else (True, insight1, s\<lparr>insights := insights s @ [insight1]\<rparr>, w1))"

definition GetInsights :: "store \<Rightarrow> string \<Rightarrow> Insight list" where
  "GetInsights s traceID =
     rev (sort_key insight_Timestamp (filter (\<lambda>i. insight_TraceID i = traceID) (insights s)))"

section \<open>Proxy (package proxy)\<close>

text \<open>
  The handlers \<open>onMessage\<close> and \<open>onAgent\<close> are callbacks; the model records whether each
  is set and returns the events delivered to them, in order.
\<close>

record Proxy =
  proxy_traceID :: string
  proxy_port :: int
  onMessage :: bool
  onAgent :: bool

datatype event = MessageEvent Message | AgentEvent Agent

text \<open>
  What the network does with one proxied request: whether \<^verbatim>\<open>http.NewRequest\<close> fails
  (with its error text), and what \<^verbatim>\<open>client.Do\<close> returns. An error of \<^verbatim>\<open>Do\<close> is a
  \<^verbatim>\<open>*url.Error\<close>, whose text is the operation, the quoted URL and the cause.
\<close>

record url_Error =
  err_Op :: string
  err_QuotedURL :: string
  err_Err :: string

definition Error_text :: "url_Error \<Rightarrow> string" where
  "Error_text e = err_Op e @ '' '' @ err_QuotedURL e @ '': '' @ err_Err e"

datatype upstream = Failed url_Error | Responded http_response

record outbound =
  NewRequest_error :: "string option"
  Do_result :: upstream

datatype reply = Reply int header string | ConnectTunnel

text \<open>\<^verbatim>\<open>http.Error\<close> answers with a plain-text body, the message and a newline.\<close>

definition http_Error :: "string \<Rightarrow> int \<Rightarrow> reply" where
  "http_Error msg code =
     Reply code
       [(''Content-Type'', [''text/plain; charset=utf-8'']),
        (''X-Content-Type-Options'', [''nosniff''])]
       (msg @ [CHR 0x0A])"

definition notify_message :: "Proxy \<Rightarrow> Message \<Rightarrow> event list" where
  "notify_message p msg = (if onMessage p then [MessageEvent msg] else [])"

definition notify_agent :: "Proxy \<Rightarrow> Agent \<Rightarrow> event list" where
  "notify_agent p agent = (if onAgent p then [AgentEvent agent] else [])"

text \<open>The block of \<open>handleProxy\<close> under "Parse request for A2A".\<close>

definition capture_request ::
  "json_lib \<Rightarrow> Proxy \<Rightarrow> world \<Rightarrow> store \<Rightarrow> http_request \<Rightarrow> string
     \<Rightarrow> Message option \<times> store \<times> event list \<times> world" where
  "capture_request js p w s r reqBody =
     (if IsA2ARequest r \<or> 0 < length reqBody then
        (let (reqMsg0, w1) = ParseRequest js w r reqBody (proxy_traceID p);
             (ok, reqMsg, s1, w2) = SaveMessage w1 s reqMsg0
         in (Some reqMsg, s1, notify_message p reqMsg, w2))
      else (None, s, [], w))"

text \<open>The block of \<open>handleProxy\<close> that runs when \<^verbatim>\<open>client.Do\<close> returns an error.\<close>

definition upstream_failed ::
  "Proxy \<Rightarrow> world \<Rightarrow> store \<Rightarrow> string \<Rightarrow> Message option \<Rightarrow> int \<Rightarrow> url_Error
     \<Rightarrow> reply \<times> store \<times> event list \<times> world" where
  "upstream_failed p w s targetURL reqMsgOpt startTime e =
     (let (s1, evs, w1) =
            (case reqMsgOpt of
               None \<Rightarrow> (s, [], w)
             | Some reqMsg \<Rightarrow>
                 (let (now, wa) = time_Now w;
                      (elapsed, wb) = time_Since wa startTime;
                      errMsg0 = Message_zero\<lparr>TraceID := proxy_traceID p, Timestamp := now,
                                  Direction := ''response'', URL := targetURL,
                                  Error := Error_text e, DurationMs := Milliseconds elapsed,
                                  RequestID := ID reqMsg\<rparr>;
                      (ok, errMsg, sa, wc) = SaveMessage wb s errMsg0
                  in (sa, notify_message p errMsg, wc)))
      in (http_Error (''Proxy error: '' @ Error_text e) 502, s1, evs, w1))"

text \<open>The block of \<open>handleProxy\<close> under "Parse response for A2A".\<close>

definition capture_response ::
  "json_lib \<Rightarrow> Proxy \<Rightarrow> world \<Rightarrow> store \<Rightarrow> http_request \<Rightarrow> string \<Rightarrow> Message option
     \<Rightarrow> http_response \<Rightarrow> string \<Rightarrow> int \<Rightarrow> store \<times> event list \<times> world" where
  "capture_response js p w s r targetURL reqMsgOpt resp respBody duration =
     (case reqMsgOpt of
        None \<Rightarrow> (s, [], w)
      | Some reqMsg \<Rightarrow>
          (let (respMsg0, w1) = ParseResponse js w resp respBody reqMsg duration;
               (ok, respMsg, s1, w2) = SaveMessage w1 s respMsg0;
               evs1 = notify_message p respMsg
           in if Contains (req_Path r) ''/.well-known/agent.json'' then
                (case ParseAgentCard js w2 respBody targetURL of
                   (None, w3) \<Rightarrow> (s1, evs1, w3)
                 | (Some agent0, w3) \<Rightarrow>
                     (let (ok2, agent, s2, w4) = SaveAgent w3 s1 agent0
                      in (s2, evs1 @ notify_agent p agent, w4)))
              else (s1, evs1, w2)))"

definition handleProxy ::
  "json_lib \<Rightarrow> Proxy \<Rightarrow> world \<Rightarrow> store \<Rightarrow> http_request \<Rightarrow> outbound
     \<Rightarrow> reply \<times> store \<times> event list \<times> world" where
  "handleProxy js p w s r out =
     (if req_Method r = ''CONNECT'' then (ConnectTunnel, s, [], w)
      else
        let targetURL = (if \<not> HasPrefix (req_URL r) ''http''
                         then ''http://'' @ req_Host r @ req_RequestURI r else req_URL r)
        in case ReadBody (req_Body r) of
             None \<Rightarrow> (http_Error ''Failed to read request body'' 500, s, [], w)
           | Some (reqBody, newReqBody) \<Rightarrow>
               (let (reqMsgOpt, s1, evs1, w1) = capture_request js p w s r reqBody;
                    (startTime, w2) = time_Now w1
                in case NewRequest_error out of
                     Some err \<Rightarrow>
                       (http_Error (''Failed to create request: '' @ err) 500, s1, evs1, w2)
                   | None \<Rightarrow>
                       (case Do_result out of
                          Failed e \<Rightarrow>
                            (let (rep, s2, evs2, w3) =
                                   upstream_failed p w2 s1 targetURL reqMsgOpt startTime e
                             in (rep, s2, evs1 @ evs2, w3))
                        | Responded resp \<Rightarrow>
                            (let (duration, w3) = time_Since w2 startTime
                             in case resp_Body resp of
                                  None \<Rightarrow>
                                    (http_Error ''Failed to read response'' 500, s1, evs1, w3)
                                | Some respBody \<Rightarrow>
                                    (let (s2, evs2, w4) =
                                           capture_response js p w3 s1 r targetURL reqMsgOpt
                                             resp respBody duration
                                     in (Reply (resp_StatusCode resp) (resp_Header resp) respBody,
                                         s2, evs1 @ evs2, w4))))))"

section \<open>Analyzer (package analyzer)\<close>

text \<open>
  The three counters are Go maps; a key that is absent reads as zero. The counters have
  type \<^verbatim>\<open>int\<close>; they count messages of one run and stay far below the range of the
  type, so they are modelled as unbounded integers.
\<close>

record Analyzer =
  analyzer_traceID :: string
  slowThreshold :: int
  onInsight :: bool
  requestTimes :: "string \<rightharpoonup> int"
  methodCounts :: "string \<rightharpoonup> int"
  agentErrors :: "string \<rightharpoonup> int"

record analyzer_Config =
  cfg_TraceID :: string
  cfg_SlowThreshold :: int
  cfg_OnInsight :: bool

definition map_get :: "(string \<rightharpoonup> int) \<Rightarrow> string \<Rightarrow> int" where
  "map_get m k = (case m k of None \<Rightarrow> 0 | Some c \<Rightarrow> c)"

definition map_incr :: "(string \<rightharpoonup> int) \<Rightarrow> string \<Rightarrow> (string \<rightharpoonup> int)" where
  "map_incr m k = m(k \<mapsto> map_get m k + 1)"

definition analyzer_New :: "analyzer_Config \<Rightarrow> Analyzer" where
  "analyzer_New cfg =
     (let threshold = (if cfg_SlowThreshold cfg = 0 then Second else cfg_SlowThreshold cfg)
      in \<lparr>analyzer_traceID = cfg_TraceID cfg, slowThreshold = threshold,
          onInsight = cfg_OnInsight cfg, requestTimes = Map.empty, methodCounts = Map.empty,
          agentErrors = Map.empty\<rparr>)"

definition formatDetails :: "json_lib \<Rightarrow> (string \<times> jvalue) list \<Rightarrow> string" where
  "formatDetails js data = MarshalIndent js (JObject data)"

definition formatSlowResponseDetails :: "json_lib \<Rightarrow> Message \<Rightarrow> string" where
  "formatSlowResponseDetails js msg =
     formatDetails js
       [(''duration_ms'', JInt (DurationMs msg)),
        (''url'', JString (URL msg)),
        (''method'', JString (Method msg)),
        (''suggestion'',
         JString ''Consider adding timeout handling or investigating agent performance'')]"

definition formatErrorTitle :: "Message \<Rightarrow> string" where
  "formatErrorTitle msg =
     (if 400 \<le> StatusCode msg then ''HTTP Error '' @ string_of_rune (rune (StatusCode msg))
      else ''A2A Error Response'')"

definition formatErrorDetails :: "json_lib \<Rightarrow> Message \<Rightarrow> string" where
  "formatErrorDetails js msg =
     (let details = [(''status_code'', JInt (StatusCode msg)),
                     (''error'', JString (Error msg)),
                     (''url'', JString (URL msg)),
                     (''method'', JString (Method msg))];
          extra = (if Body msg \<noteq> [] then
                     (case Unmarshal_A2AResponse js (Body msg) of
                        None \<Rightarrow> []
                      | Some resp \<Rightarrow>
                          (case rpc_Error resp of
                             None \<Rightarrow> []
                           | Some e \<Rightarrow> [(''error_code'', JInt (err_Code e)),
                                        (''error_message'', JString (err_Message e))]))
                   else [])
      in formatDetails js (details @ extra))"

definition formatRetryLoopDetails :: "json_lib \<Rightarrow> string \<Rightarrow> int \<Rightarrow> string" where
  "formatRetryLoopDetails js method n =
     formatDetails js
       [(''method'', JString method),
        (''call_count'', JInt n),
        (''suggestion'', JString ''Check for proper error handling and backoff logic'')]"

definition checkSlowResponse ::
  "json_lib \<Rightarrow> world \<Rightarrow> Analyzer \<Rightarrow> Message \<Rightarrow> Insight option \<times> world" where
  "checkSlowResponse js w a msg =
     (if DurationMs msg \<le> Milliseconds (slowThreshold a) then (None, w)
      else (let (u, w1) = uuid_New w;
                (now, w2) = time_Now w1
            in (Some \<lparr>insight_ID = u, insight_TraceID = analyzer_traceID a,
                       MessageID = ID msg, Type = ''warning'', Category = ''slow_response'',
                       Title = ''Slow Response Detected'',
                       Details = formatSlowResponseDetails js msg,
                       insight_Timestamp = now\<rparr>, w2)))"

definition checkError ::
  "json_lib \<Rightarrow> world \<Rightarrow> Analyzer \<Rightarrow> Message \<Rightarrow> Insight option \<times> Analyzer \<times> world" where
  "checkError js w a msg =
     (if Error msg = [] \<and> StatusCode msg < 400 then (None, a, w)
      else (let a1 = a\<lparr>agentErrors := map_incr (agentErrors a) (FromAgent msg)\<rparr>;
                insightType = (if 400 \<le> StatusCode msg \<and> StatusCode msg < 500
                               then ''warning'' else ''error'');
                (u, w1) = uuid_New w;
                (now, w2) = time_Now w1
            in (Some \<lparr>insight_ID = u, insight_TraceID = analyzer_traceID a,
                       MessageID = ID msg, Type = insightType, Category = ''error'',
                       Title = formatErrorTitle msg, Details = formatErrorDetails js msg,
                       insight_Timestamp = now\<rparr>, a1, w2)))"

definition protocol_violations :: "json_lib \<Rightarrow> Message \<Rightarrow> string list" where
  "protocol_violations js msg =
     (if Body msg \<noteq> [] then
        (case Unmarshal_object js (Body msg) of
           None \<Rightarrow> []
         | Some keys \<Rightarrow>
             (if ''jsonrpc'' \<notin> set keys then [''Missing '' @ [CHR 0x27] @ ''jsonrpc'' @ [CHR 0x27] @ '' field''] else [])
             @ (if ''id'' \<notin> set keys \<and> 200 \<le> StatusCode msg \<and> StatusCode msg < 300
                   \<and> ''result'' \<in> set keys
                then [''Missing '' @ [CHR 0x27] @ ''id'' @ [CHR 0x27] @ '' field in response''] else []))
      else [])"

definition checkProtocolViolation ::
  "json_lib \<Rightarrow> world \<Rightarrow> Analyzer \<Rightarrow> Message \<Rightarrow> Insight option \<times> world" where
  "checkProtocolViolation js w a msg =
     (let violations = protocol_violations js msg
      in if length violations = 0 then (None, w)
         else (let (u, w1) = uuid_New w;
                   (now, w2) = time_Now w1
               in (Some \<lparr>insight_ID = u, insight_TraceID = analyzer_traceID a,
                          MessageID = ID msg, Type = ''warning'',
                          Category = ''protocol_violation'', Title = ''A2A Protocol Violation'',
                          Details = Join violations ''; '', insight_Timestamp = now\<rparr>, w2)))"

definition checkRetryLoop ::
  "json_lib \<Rightarrow> world \<Rightarrow> Analyzer \<Rightarrow> Message \<Rightarrow> Insight option \<times> world" where
  "checkRetryLoop js w a msg =
     (if Method msg = [] then (None, w)
      else (let n = map_get (methodCounts a) (Method msg)
            in if 0 < n \<and> n mod 5 = 0 then
                 (let (u, w1) = uuid_New w;
                      (now, w2) = time_Now w1
                  in (Some \<lparr>insight_ID = u, insight_TraceID = analyzer_traceID a,
                             MessageID = ID msg, Type = ''warning'', Category = ''retry_loop'',
                             Title = ''Potential Retry Loop Detected'',
                             Details = formatRetryLoopDetails js (Method msg) n,
                             insight_Timestamp = now\<rparr>, w2))
               else (None, w)))"

text \<open>The loop "Save and broadcast insights": the insights handed to \<open>onInsight\<close>.\<close>

fun save_insights ::
  "world \<Rightarrow> store \<Rightarrow> bool \<Rightarrow> Insight list \<Rightarrow> Insight list \<times> store \<times> Insight list \<times> world" where
  "save_insights w s notify [] = ([], s, [], w)"
| "save_insights w s notify (i # rest) =
     (let (ok, i1, s1, w1) = SaveInsight w s i;
          (rest1, s2, sent, w2) = save_insights w1 s1 notify rest
      in (i1 # rest1, s2, (if ok \<and> notify then [i1] else []) @ sent, w2))"

definition opt_list :: "'a option \<Rightarrow> 'a list" where
  "opt_list x = (case x of None \<Rightarrow> [] | Some v \<Rightarrow> [v])"

text \<open>
  \<open>AnalyzeMessage\<close> gives the insights it returns, the analyzer after the call, the store
  after the call, the insights delivered to \<open>onInsight\<close>, and the world.
\<close>

definition AnalyzeMessage ::
  "json_lib \<Rightarrow> world \<Rightarrow> Analyzer \<Rightarrow> store \<Rightarrow> Message
     \<Rightarrow> Insight list \<times> Analyzer \<times> store \<times> Insight list \<times> world" where
  "AnalyzeMessage js w a s msg =
     (let a1 = (if Direction msg = ''request''
                then a\<lparr>requestTimes := (requestTimes a)(ID msg \<mapsto> Timestamp msg),
                       methodCounts := map_incr (methodCounts a) (Method msg)\<rparr>
                else a);
          (found, a2, w3) =
            (if Direction msg = ''response'' then
               (let (slow, wa) = checkSlowResponse js w a1 msg;
                    (err, a', wb) = checkError js wa a1 msg;
                    (viol, wc) = checkProtocolViolation js wb a' msg
                in (opt_list slow @ opt_list err @ opt_list viol, a', wc))
             else ([], a1, w));
          (retry, w4) = checkRetryLoop js w3 a2 msg;
          (saved, s1, sent, w5) = save_insights w4 s (onInsight a2) (found @ opt_list retry)
      in (saved, a2, s1, sent, w5))"

text \<open>The analyzer fed with the messages of a trace, one after the other.\<close>

fun feed ::
  "json_lib \<Rightarrow> world \<Rightarrow> Analyzer \<Rightarrow> store \<Rightarrow> Message list \<Rightarrow> Analyzer \<times> store \<times> world" where
  "feed js w a s [] = (a, s, w)"
| "feed js w a s (msg # rest) =
     (let (found, a1, s1, sent, w1) = AnalyzeMessage js w a s msg in feed js w1 a1 s1 rest)"

text \<open>
  The loop of \<open>GetSummary\<close> over the messages; \<open>totalDuration\<close> is an \<^verbatim>\<open>int64\<close>.
\<close>

fun summary_loop :: "Message list \<Rightarrow> int \<times> int \<times> int \<Rightarrow> int \<times> int \<times> int" where
  "summary_loop [] acc = acc"
| "summary_loop (msg # rest) (totalDuration, errorCount, successCount) =
     summary_loop rest
       (if Direction msg = ''response'' then
          (if Error msg \<noteq> [] \<or> 400 \<le> StatusCode msg
           then (int64 (totalDuration + DurationMs msg), errorCount + 1, successCount)
           else (int64 (totalDuration + DurationMs msg), errorCount, successCount + 1))
        else (totalDuration, errorCount, successCount))"

record Summary =
  total_messages :: int
  total_insights :: int
  error_count :: int
  success_count :: int
  avg_duration_ms :: int
  method_counts :: "string \<rightharpoonup> int"
  agent_error_counts :: "string \<rightharpoonup> int"

definition GetSummary :: "Analyzer \<Rightarrow> store \<Rightarrow> Summary" where
  "GetSummary a s =
     (let found = GetInsights s (analyzer_traceID a);
          msgs = GetMessages s (analyzer_traceID a);
          (totalDuration, errorCount, successCount) = summary_loop msgs (0, 0, 0);
          responseCount = successCount + errorCount;
          avgDuration = (if 0 < responseCount then quo totalDuration responseCount else 0)
      in \<lparr>total_messages = int (length msgs), total_insights = int (length found),
          error_count = errorCount, success_count = successCount,
          avg_duration_ms = avgDuration, method_counts = methodCounts a,
          agent_error_counts = agentErrors a\<rparr>)"

section \<open>Supervisor (package process)\<close>

definition proxyVars :: "int \<Rightarrow> (string \<times> string) list" where
  "proxyVars proxyPort =
     (let proxyURL = ''http://127.0.0.1:'' @ Itoa proxyPort
      in [(''HTTP_PROXY'', proxyURL),
          (''http_proxy'', proxyURL),
          (''HTTPS_PROXY'', proxyURL),
          (''https_proxy'', proxyURL),
          (''NO_PROXY'', []),
          (''no_proxy'', []),
          (''A2A_PROXY'', proxyURL),
          (''A2A_TRACE'', ''1''),
          (''A2A_TRACE_UI'', ''http://127.0.0.1:'' @ Itoa proxyPort @ ''/ui'')])"

text \<open>The key of an entry of the environment: \<^verbatim>\<open>strings.Split(e, "=")[0]\<close>.\<close>

definition env_key :: "string \<Rightarrow> string" where
  "env_key e = hd (SplitByte e CHR ''='')"

text \<open>
  \<open>buildEnv\<close> takes the parent environment (\<^verbatim>\<open>os.Environ()\<close>) and the order in which
  the \<^verbatim>\<open>range\<close> over the map \<open>proxyVars\<close> visits its entries, which Go leaves open.
\<close>

definition buildEnv ::
  "((string \<times> string) list \<Rightarrow> (string \<times> string) list) \<Rightarrow> string list \<Rightarrow> int \<Rightarrow> string list" where
  "buildEnv range_order environ proxyPort =
     (let vars = proxyVars proxyPort;
          filteredEnv = filter (\<lambda>e. map_of vars (env_key e) = None) environ
      in filteredEnv @ map (\<lambda>(key, val). key @ ''='' @ val) (range_order vars))"

text \<open>
  The classification rule as the specification words it, for comparison with
  \<open>IsA2ARequest\<close>.
\<close>

definition spec_IsA2ARequest :: "http_request \<Rightarrow> bool" where
  "spec_IsA2ARequest r =
     ((req_Method r = ''POST'' \<and>
       Contains (Header_Get (req_Header r) ''Content-Type'') ''application/json'')
      \<or> (req_Method r = ''GET'' \<and> HasSuffix (req_Path r) ''/.well-known/agent.json''))"

section \<open>Derived descriptions and concrete inputs\<close>

text \<open>
  The messages \<open>handleProxy\<close> builds, written as functions of the clock readings and
  identifiers it draws: \<open>at_time now\<close> is a world whose clock reads \<open>now\<close>.
\<close>

definition at_time :: "int \<Rightarrow> world" where
  "at_time now = \<lparr>uuid_seq = (\<lambda>n. []), uuid_taken = 0, clock_seq = (\<lambda>n. now), clock_taken = 0\<rparr>"

definition request_of ::
  "json_lib \<Rightarrow> Proxy \<Rightarrow> http_request \<Rightarrow> string \<Rightarrow> int \<Rightarrow> string \<Rightarrow> Message" where
  "request_of js p r reqBody now uid =
     (fst (ParseRequest js (at_time now) r reqBody (proxy_traceID p)))\<lparr>ID := uid\<rparr>"

definition request_q :: "json_lib \<Rightarrow> Proxy \<Rightarrow> world \<Rightarrow> http_request \<Rightarrow> string \<Rightarrow> Message" where
  "request_q js p w r reqBody =
     request_of js p r reqBody (clock_seq w (clock_taken w)) (uuid_seq w (uuid_taken w))"

definition failure_of ::
  "Proxy \<Rightarrow> string \<Rightarrow> Message \<Rightarrow> url_Error \<Rightarrow> int \<Rightarrow> int \<Rightarrow> string \<Rightarrow> Message" where
  "failure_of p targetURL reqMsg e now elapsed uid =
     Message_zero\<lparr>ID := uid, TraceID := proxy_traceID p,
       Timestamp := now, Direction := ''response'', URL := targetURL,
       Error := Error_text e, DurationMs := Milliseconds elapsed,
       RequestID := ID reqMsg\<rparr>"

definition response_of ::
  "json_lib \<Rightarrow> http_response \<Rightarrow> string \<Rightarrow> Message \<Rightarrow> int \<Rightarrow> int \<Rightarrow> string \<Rightarrow> Message" where
  "response_of js resp respBody reqMsg duration now uid =
     (fst (ParseResponse js (at_time now) resp respBody reqMsg duration))\<lparr>ID := uid\<rparr>"

definition target_of :: "http_request \<Rightarrow> string" where
  "target_of r = (if \<not> HasPrefix (req_URL r) ''http''
                  then ''http://'' @ req_Host r @ req_RequestURI r else req_URL r)"

text \<open>
  The rule for the error text of a response as the specification words it (the JSON-RPC
  error first), for comparison with \<open>ParseResponse\<close>.
\<close>

definition spec_response_error :: "json_lib \<Rightarrow> int \<Rightarrow> string \<Rightarrow> string" where
  "spec_response_error js code body =
     (case (case Unmarshal_A2AResponse js body of None \<Rightarrow> None | Some r \<Rightarrow> rpc_Error r) of
        Some e \<Rightarrow> err_Message e
      | None \<Rightarrow> if 400 \<le> code then StatusText code else [])"

text \<open>
  A world for the examples: identifiers of the shape of a UUID, ten of them distinct, and
  a clock that advances 40 ms with every reading.
\<close>

definition demo_world :: world where
  "demo_world =
     \<lparr>uuid_seq = (\<lambda>n. ''3f0c9a52-7b1e-4d6a-9c2f-00000000000'' @ [digit_char (n mod 10)]),
      uuid_taken = 0,
      clock_seq = (\<lambda>n. 1700000000000000000 + int n * 40000000),
      clock_taken = 0\<rparr>"

text \<open>
  Three JSON-RPC bodies, and the decoders of \<^verbatim>\<open>encoding/json\<close> restricted to
  them: they give on each of the three what the library gives, and report an error on
  any other input (as the library does on the empty body, the only other one the
  examples use).
\<close>

definition body_create :: string where
  \<open>body_create = ''{"jsonrpc":"2.0","method":"tasks/create","id":"7","params":{}}''\<close>

definition body_result :: string where
  \<open>body_result = ''{"jsonrpc":"2.0","id":"7","result":{"ok":true}}''\<close>

definition body_error :: string where
  \<open>body_error = ''{"jsonrpc":"2.0","id":"7","error":{"code":-32000,"message":"boom"}}''\<close>

text \<open>
  A compact JSON encoder for the examples. It stands in for \<^verbatim>\<open>json.Marshal\<close> and
  \<^verbatim>\<open>json.MarshalIndent\<close>, without the library's ordering of members, escaping and
  indentation.
\<close>

fun render :: "jvalue \<Rightarrow> string" where
  "render JNull = ''null''"
| "render (JString s) = CHR 0x22 # s @ [CHR 0x22]"
| "render (JInt n) = Itoa n"
| "render (JArray vs) = ''['' @ Join (map render vs) '','' @ '']''"
| "render (JObject ms) =
     ''{'' @ Join (map (\<lambda>(k, v). CHR 0x22 # k @ [CHR 0x22] @ '':'' @ render v) ms) '','' @ ''}''"

text \<open>The characters of a decimal rendering.\<close>

definition is_digit :: "char \<Rightarrow> bool" where
  "is_digit c = (c \<in> set ''0123456789'')"

definition demo_json :: json_lib where
  "demo_json =
     \<lparr>Unmarshal_A2ARequest =
        (\<lambda>b. if b = body_create
             then Some \<lparr>rpc_Method = ''tasks/create'', rpc_ID = Some (IdString ''7'')\<rparr>
             else if b = body_result \<or> b = body_error
             then Some \<lparr>rpc_Method = [], rpc_ID = Some (IdString ''7'')\<rparr>
             else None),
      Unmarshal_A2AResponse =
        (\<lambda>b. if b = body_error
             then Some \<lparr>rpc_Error = Some \<lparr>err_Code = - 32000, err_Message = ''boom''\<rparr>\<rparr>
             else if b = body_create \<or> b = body_result then Some \<lparr>rpc_Error = None\<rparr>
             else None),
      Unmarshal_AgentCard =
        (\<lambda>b. if b = body_create \<or> b = body_result \<or> b = body_error
             then Some \<lparr>card_Name = [], card_Description = [], card_Version = [],
                         card_Skills = JNull\<rparr>
             else None),
      Unmarshal_object =
        (\<lambda>b. if b = body_create then Some [''jsonrpc'', ''method'', ''id'', ''params'']
             else if b = body_result then Some [''jsonrpc'', ''id'', ''result'']
             else if b = body_error then Some [''jsonrpc'', ''id'', ''error'']
             else None),
      Marshal = render,
      MarshalIndent = render\<rparr>"

definition get_card_plain :: http_request where
  "get_card_plain =
     \<lparr>req_Method = ''GET'', req_URL = ''http://agent.local/.well-known/agent.json'',
      req_Path = ''/.well-known/agent.json'', req_RequestURI = ''/.well-known/agent.json'',
      req_Host = ''agent.local'', req_Header = [(''Accept'', [''*/*''])], req_Body = NoBody\<rparr>"

definition get_card_backup :: http_request where
  "get_card_backup =
     \<lparr>req_Method = ''GET'', req_URL = ''http://agent.local/.well-known/agent.json.bak'',
      req_Path = ''/.well-known/agent.json.bak'',
      req_RequestURI = ''/.well-known/agent.json.bak'',
      req_Host = ''agent.local'',
      req_Header = [(''Content-Type'', [''application/json''])], req_Body = NoBody\<rparr>"

definition post_create :: http_request where
  "post_create =
     \<lparr>req_Method = ''POST'', req_URL = ''http://example/'', req_Path = ''/'',
      req_RequestURI = ''/'', req_Host = ''example'',
      req_Header = [(''Content-Type'', [''application/json''])],
      req_Body = Stream (Some body_create)\<rparr>"

definition resp_500_error :: http_response where
  "resp_500_error =
     \<lparr>resp_StatusCode = 500, resp_Header = [(''Content-Type'', [''application/json''])],
      resp_Body = Some body_error\<rparr>"

definition not_found_response :: Message where
  "not_found_response =
     Message_zero\<lparr>ID := ''3f0c9a52-7b1e-4d6a-9c2f-000000000001'', Direction := ''response'',
       URL := ''http://example/missing'', FromAgent := ''example'', StatusCode := 404,
       Error := ''Not Found'', DurationMs := 12\<rparr>"

text \<open>
  The fields of an insight that depend neither on \<^verbatim>\<open>uuid.New()\<close> nor on the clock:
  category, severity, title, details and the Message it is tied to.
\<close>

definition insight_view :: "Insight \<Rightarrow> string \<times> string \<times> string \<times> string \<times> string" where
  "insight_view i = (Category i, Type i, Title i, Details i, MessageID i)"

text \<open>
  A Message as the proxy builds it: only a request carries a method. An event handed to
  the handlers respects this when it is an agent, or a Message of this kind.
\<close>

definition method_on_request_only :: "Message \<Rightarrow> bool" where
  "method_on_request_only x = (Direction x = ''request'' \<or> Method x = [])"

definition event_ok :: "event \<Rightarrow> bool" where
  "event_ok ev = (case ev of MessageEvent x \<Rightarrow> method_on_request_only x | AgentEvent a \<Rightarrow> True)"

text \<open>The durations of the response Messages of a trace, in the order of the table.\<close>

definition is_response :: "Message \<Rightarrow> bool" where
  "is_response m = (Direction m = ''response'')"

definition response_durations :: "store \<Rightarrow> string \<Rightarrow> int list" where
  "response_durations s traceID =
     map DurationMs (filter (\<lambda>m. TraceID m = traceID \<and> Direction m = ''response'') (messages s))"

text \<open>The names of the variables \<open>buildEnv\<close> injects.\<close>

definition proxy_names :: "string list" where
  "proxy_names = [''HTTP_PROXY'', ''http_proxy'', ''HTTPS_PROXY'', ''https_proxy'', ''NO_PROXY'',
                  ''no_proxy'', ''A2A_PROXY'', ''A2A_TRACE'', ''A2A_TRACE_UI'']"

text \<open>Messages, a store and an environment for the examples.\<close>

definition demo_cfg :: analyzer_Config where
  "demo_cfg = \<lparr>cfg_TraceID = ''trace-1'', cfg_SlowThreshold = 0, cfg_OnInsight = True\<rparr>"

definition create_request :: "nat \<Rightarrow> Message" where
  "create_request k =
     Message_zero\<lparr>ID := ''7a1d3c44-90ab-4e2f-8b6d-00000000000'' @ [digit_char k],
       TraceID := ''trace-1'', Timestamp := 1700000000000000000 + int k * 100000000,
       Direction := ''request'', ToAgent := ''example'', Method := ''tasks/create'',
       URL := ''http://example/'', Body := body_create, RequestID := ''7'',
       ContentType := ''application/json'', Size := 62\<rparr>"

definition timed_response :: "int \<Rightarrow> Message" where
  "timed_response ms =
     Message_zero\<lparr>ID := ''7a1d3c44-90ab-4e2f-8b6d-000000000008'',
       TraceID := ''trace-1'', Timestamp := 1700000002000000000,
       Direction := ''response'', FromAgent := ''example'',
       URL := ''http://example/'', Body := body_result, DurationMs := ms, StatusCode := 200,
       RequestID := ''7'', ContentType := ''application/json'', Size := 47\<rparr>"

definition summary_store :: store where
  "summary_store =
     \<lparr>messages = [create_request 0, timed_response 40, create_request 1, timed_response 45,
                   (timed_response 9000)\<lparr>TraceID := ''trace-0''\<rparr>],
      agents = [], insights = []\<rparr>"

definition parent_environ :: "string list" where
  "parent_environ =
     [''PATH=/usr/bin:/bin'', ''HTTP_PROXY=http://corp-proxy:3128'', ''no_proxy=localhost'',
      ''HOME=/root'', ''A2A_TRACE'']"

definition demo_proxy :: Proxy where
  "demo_proxy = \<lparr>proxy_traceID = ''trace-1'', proxy_port = 8080, onMessage = True, onAgent = True\<rparr>"

definition empty_store :: store where
  "empty_store = \<lparr>messages = [], agents = [], insights = []\<rparr>"

definition refused :: outbound where
  "refused =
     \<lparr>NewRequest_error = None,
      Do_result = Failed \<lparr>err_Op = ''Post'', err_QuotedURL = [CHR 0x22] @ ''http://example/'' @ [CHR 0x22],
                          err_Err = ''dial tcp 93.184.216.34:80: connect: connection refused''\<rparr>\<rparr>"

definition answered_ok :: outbound where
  "answered_ok =
     \<lparr>NewRequest_error = None,
      Do_result = Responded \<lparr>resp_StatusCode = 200,
                              resp_Header = [(''Content-Type'', [''application/json''])],
                              resp_Body = Some body_result\<rparr>\<rparr>"

definition bob_v1 :: Agent where
  \<open>bob_v1 =
     \<lparr>agent_ID = ''3f0c9a52-7b1e-4d6a-9c2f-000000000004'', agent_URL = ''http://agent.local/.well-known/agent.json'',
      Name = ''Bob'', Description = ''greeter'', Version = ''1.0'',
      Skills = ''[{"id":"s1","name":"greet"}]'', FirstSeen = 1700000000000000000\<rparr>\<close>

definition bob_v2 :: Agent where
  \<open>bob_v2 =
     \<lparr>agent_ID = [], agent_URL = ''http://agent.local/.well-known/agent.json'',
      Name = ''Bob II'', Description = ''greeter and planner'', Version = ''2.0'',
      Skills = ''[{"id":"s1","name":"greet"},{"id":"s2","name":"plan"}]'',
      FirstSeen = 1700000360000000000\<rparr>\<close>

definition store_with_bob :: store where
  "store_with_bob = \<lparr>messages = [], agents = [bob_v1], insights = []\<rparr>"

section \<open>Classifier\<close>

lemma IsA2ARequest_eq:
  "IsA2ARequest r \<longleftrightarrow>
     Contains (Header_Get (req_Header r) ''Content-Type'') ''application/json'' \<and>
     (req_Method r = ''POST'' \<or>
      (req_Method r = ''GET'' \<and> Contains (req_Path r) ''/.well-known/agent.json''))"
  by (auto simp: IsA2ARequest_def Let_def)

lemma post_create_facts:
  "req_Method post_create = ''POST''"
  "Contains (Header_Get (req_Header post_create) ''Content-Type'') ''application/json''"
  by (simp_all add: post_create_def Header_Get_def HasPrefix_def)

text \<open>
  Claim C2, as amended. Leaving aside a GET for a path containing
  \<open>/.well-known/agent.json\<close> whose Content-Type lacks \<open>application/json\<close>, a request is
  judged A2A exactly when it is a POST whose Content-Type contains \<open>application/json\<close>,
  or a GET whose path contains \<open>/.well-known/agent.json\<close> (anywhere in the path, not
  only at its end).
\<close>

theorem IsA2ARequest_classification:
  assumes "\<not> (req_Method r = ''GET'' \<and> Contains (req_Path r) ''/.well-known/agent.json''
              \<and> \<not> Contains (Header_Get (req_Header r) ''Content-Type'') ''application/json'')"
  shows "IsA2ARequest r \<longleftrightarrow>
           (req_Method r = ''POST'' \<and>
            Contains (Header_Get (req_Header r) ''Content-Type'') ''application/json'')
           \<or> (req_Method r = ''GET'' \<and> Contains (req_Path r) ''/.well-known/agent.json'')"
  using assms unfolding IsA2ARequest_eq by blast

text \<open>Claim C2, as amended, at a JSON-RPC POST.\<close>

theorem IsA2ARequest_classification_witness:
  "IsA2ARequest post_create"
proof -
  have "\<not> (req_Method post_create = ''GET''
            \<and> Contains (req_Path post_create) ''/.well-known/agent.json''
            \<and> \<not> Contains (Header_Get (req_Header post_create) ''Content-Type'')
                  ''application/json'')"
    by (simp add: post_create_facts)
  from IsA2ARequest_classification [OF this] show ?thesis
    by (simp add: post_create_facts)
qed

text \<open>
  Claim C2 as stated fails twice. A GET for \<open>/.well-known/agent.json\<close> that carries no
  Content-Type is A2A by the stated rule and is rejected by the classifier; a GET with a
  JSON Content-Type for \<open>/.well-known/agent.json.bak\<close> is accepted by the classifier
  though its path does not end in \<open>/.well-known/agent.json\<close>.
\<close>

theorem IsA2ARequest_spec_counterexample:
  "(spec_IsA2ARequest get_card_plain \<and> \<not> IsA2ARequest get_card_plain)
   \<and> (IsA2ARequest get_card_backup \<and> \<not> spec_IsA2ARequest get_card_backup)"
  by (simp add: spec_IsA2ARequest_def IsA2ARequest_def get_card_plain_def get_card_backup_def
      HasSuffix_def Header_Get_def HasPrefix_def)

section \<open>Error text of a response\<close>

text \<open>
  Claim C3, as amended. The error text of a parsed response is the HTTP status text
  whenever the status is at least 400, whatever the body holds (the status text is empty
  for a code without a registered phrase); below 400 it is the message of the JSON-RPC
  error object when the body decodes to an envelope that has one, and empty otherwise.
\<close>

theorem ParseResponse_Error:
  "Error (fst (ParseResponse js w resp body requestMsg duration)) =
     (if 400 \<le> resp_StatusCode resp then StatusText (resp_StatusCode resp)
      else (case Unmarshal_A2AResponse js body of
              None \<Rightarrow> []
            | Some r \<Rightarrow> (case rpc_Error r of None \<Rightarrow> [] | Some e \<Rightarrow> err_Message e)))"
  by (simp add: ParseResponse_def Let_def Message_zero_def split: prod.splits option.splits)

text \<open>Claim C3, as amended, at a response 500 whose body carries the JSON-RPC error "boom".\<close>

theorem ParseResponse_Error_witness:
  "Error (fst (ParseResponse demo_json demo_world resp_500_error body_error Message_zero 40000000))
     = ''Internal Server Error''"
  using ParseResponse_Error [of demo_json demo_world resp_500_error body_error Message_zero 40000000]
  by (simp add: resp_500_error_def StatusText_def)

text \<open>
  Claim C3 as stated fails there: the body decodes to an envelope whose error message is
  "boom", which the stated rule makes the error text, and \<open>ParseResponse\<close> stores the
  status text of 500.
\<close>

theorem ParseResponse_precedence_counterexample:
  "spec_response_error demo_json 500 body_error = ''boom''
   \<and> Error (fst (ParseResponse demo_json demo_world resp_500_error body_error Message_zero
                  40000000)) = ''Internal Server Error''
   \<and> Error (fst (ParseResponse demo_json demo_world resp_500_error body_error Message_zero
                  40000000)) \<noteq> spec_response_error demo_json 500 body_error"
  by (simp add: ParseResponse_def Let_def Message_zero_def time_Now_def resp_500_error_def
      StatusText_def spec_response_error_def demo_json_def)

section \<open>Title of an error insight\<close>

text \<open>
  Claim C9 asks for the status code in decimal digits. \<open>formatErrorTitle\<close> converts the
  code to a rune and the rune to a string: for the code 404 the title ends in the two
  bytes C6 94 (the UTF-8 encoding of U+0194), not in the digits 404, and this is the
  title of the insight \<open>checkError\<close> emits.
\<close>

theorem formatErrorTitle_404_character_cast:
  "formatErrorTitle not_found_response = ''HTTP Error '' @ [CHR 0xC6, CHR 0x94]
   \<and> formatErrorTitle not_found_response \<noteq> ''HTTP Error '' @ Itoa 404
   \<and> Itoa 404 = ''404''
   \<and> map_option Title (fst (checkError demo_json demo_world
                               (analyzer_New \<lparr>cfg_TraceID = ''t1'', cfg_SlowThreshold = 0,
                                              cfg_OnInsight = True\<rparr>) not_found_response))
       = Some (''HTTP Error '' @ [CHR 0xC6, CHR 0x94])"
  by (simp add: formatErrorTitle_def not_found_response_def Message_zero_def string_of_rune_def
      rune_def byte_def char_of_def Itoa_def digits.simps digit_char_def checkError_def
      uuid_New_def time_Now_def Let_def)

text \<open>
  The same holds for every status code from 400 on: the string of a rune is a single
  byte, or begins with a byte of 192 or more, while the decimal rendering of such a code
  is three or more digits.
\<close>

lemma digit_char_is_digit: "is_digit (digit_char d)"
  by (simp add: digit_char_def is_digit_def)

lemma digits_all_digits: "list_all is_digit (digits n)"
proof (induction n rule: digits.induct)
  case (1 n)
  show ?case
  proof (cases "n < 10")
    case True
    then show ?thesis by (simp add: digits.simps [of n] digit_char_is_digit)
  next
    case False
    with 1 show ?thesis by (simp add: digits.simps [of n] digit_char_is_digit)
  qed
qed

lemma digits_nonempty: "digits n \<noteq> []"
  by (simp add: digits.simps [of n])

lemma digits_length: "100 \<le> n \<Longrightarrow> 3 \<le> length (digits n)"
proof -
  assume n: "100 \<le> n"
  have a: "digits n = digits (n div 10) @ [digit_char (n mod 10)]"
    using n by (simp add: digits.simps [of n])
  have "10 \<le> n div 10"
    using n by arith
  then have b: "digits (n div 10) = digits (n div 10 div 10) @ [digit_char (n div 10 mod 10)]"
    by (simp add: digits.simps [of "n div 10"])
  have "1 \<le> length (digits (n div 10 div 10))"
    using digits_nonempty [of "n div 10 div 10"] by (cases "digits (n div 10 div 10)") simp_all
  then show ?thesis
    by (simp add: a b)
qed

lemma byte_not_digit: "128 \<le> k \<Longrightarrow> k < 256 \<Longrightarrow> \<not> is_digit (byte k)"
proof
  assume k: "128 \<le> k" "k < 256" and d: "is_digit (byte k)"
  have "of_char (byte k) = (k mod 256 :: int)"
    by (simp add: byte_def)
  then have v: "of_char (byte k) = k"
    using k by simp
  from d have "(of_char (byte k) :: int) \<in> {48, 49, 50, 51, 52, 53, 54, 55, 56, 57}"
    unfolding is_digit_def by auto
  with v k show False by auto
qed

lemma string_of_rune_not_decimal:
  assumes "list_all is_digit ds" and "3 \<le> length ds"
  shows "string_of_rune r \<noteq> ds"
proof
  assume eq: "string_of_rune r = ds"
  consider (bad) "r < 0 \<or> 1114111 < r \<or> (55296 \<le> r \<and> r \<le> 57343)"
    | (one) "0 \<le> r" "r < 128"
    | (two) "128 \<le> r" "r < 2048"
    | (three) "2048 \<le> r" "r < 65536" "\<not> (55296 \<le> r \<and> r \<le> 57343)"
    | (four) "65536 \<le> r" "r \<le> 1114111"
    by linarith
  then show False
  proof cases
    case bad
    then have "ds = [byte 239, byte 191, byte 189]"
      using eq by (simp add: string_of_rune_def)
    with assms(1) byte_not_digit [of 239] show False by simp
  next
    case one
    then have "length ds = 1"
      using eq by (auto simp: string_of_rune_def)
    with assms(2) show False by simp
  next
    case two
    then have "length ds = 2"
      using eq by (auto simp: string_of_rune_def)
    with assms(2) show False by simp
  next
    case three
    then have "ds = [byte (224 + r div 4096), byte (128 + (r div 64) mod 64), byte (128 + r mod 64)]"
      using eq by (auto simp: string_of_rune_def)
    moreover have "128 \<le> 224 + r div 4096" "224 + r div 4096 < 256"
      using three by auto
    ultimately show False
      using assms(1) byte_not_digit [of "224 + r div 4096"] by simp
  next
    case four
    then have "ds = [byte (240 + r div 262144), byte (128 + (r div 4096) mod 64),
            byte (128 + (r div 64) mod 64), byte (128 + r mod 64)]"
      using eq by (auto simp: string_of_rune_def)
    moreover have "128 \<le> 240 + r div 262144" "240 + r div 262144 < 256"
      using four by auto
    ultimately show False
      using assms(1) byte_not_digit [of "240 + r div 262144"] by simp
  qed
qed

lemma formatErrorTitle_never_decimal:
  assumes "400 \<le> StatusCode msg"
  shows "formatErrorTitle msg \<noteq> ''HTTP Error '' @ Itoa (StatusCode msg)"
proof -
  have "Itoa (StatusCode msg) = digits (nat (StatusCode msg))"
    using assms by (simp add: Itoa_def)
  moreover have "3 \<le> length (digits (nat (StatusCode msg)))"
    using assms by (intro digits_length) simp
  ultimately have "string_of_rune (rune (StatusCode msg)) \<noteq> Itoa (StatusCode msg)"
    using string_of_rune_not_decimal [OF digits_all_digits] by simp
  then show ?thesis
    using assms by (simp add: formatErrorTitle_def)
qed

section \<open>Proxy and store\<close>

lemma ParseRequest_world:
  "snd (ParseRequest js w r body t) = w\<lparr>clock_taken := Suc (clock_taken w)\<rparr>"
  by (simp add: ParseRequest_def time_Now_def Let_def split: option.splits)

lemma ParseRequest_ID: "ID (fst (ParseRequest js w r body t)) = []"
  by (simp add: ParseRequest_def time_Now_def Let_def Message_zero_def split: option.splits)

lemma ParseRequest_Direction: "Direction (fst (ParseRequest js w r body t)) = ''request''"
  by (simp add: ParseRequest_def time_Now_def Let_def Message_zero_def split: option.splits)

lemma ParseRequest_RequestID:
  "RequestID (fst (ParseRequest js w r body t)) =
     (case Unmarshal_A2ARequest js body of
        None \<Rightarrow> []
      | Some q \<Rightarrow> (case rpc_ID q of None \<Rightarrow> [] | Some v \<Rightarrow> formatRequestID js v))"
  by (simp add: ParseRequest_def time_Now_def Let_def Message_zero_def split: option.splits)

lemma ParseResponse_world:
  "snd (ParseResponse js w resp body q d) = w\<lparr>clock_taken := Suc (clock_taken w)\<rparr>"
  by (simp add: ParseResponse_def time_Now_def Let_def split: option.splits)

lemma ParseResponse_fields:
  "ID (fst (ParseResponse js w resp body q d)) = []"
  "Direction (fst (ParseResponse js w resp body q d)) = ''response''"
  "RequestID (fst (ParseResponse js w resp body q d)) = RequestID q"
  "StatusCode (fst (ParseResponse js w resp body q d)) = resp_StatusCode resp"
  "DurationMs (fst (ParseResponse js w resp body q d)) = Milliseconds d"
  "Method (fst (ParseResponse js w resp body q d)) = []"
  by (simp_all add: ParseResponse_def time_Now_def Let_def Message_zero_def split: option.splits)

lemma SaveMessage_new:
  assumes "ID msg = []"
  shows "SaveMessage w s msg =
           (uuid_seq w (uuid_taken w) \<notin> set (map ID (messages s)),
            msg\<lparr>ID := uuid_seq w (uuid_taken w)\<rparr>,
            (if uuid_seq w (uuid_taken w) \<in> set (map ID (messages s)) then s
             else s\<lparr>messages := messages s @ [msg\<lparr>ID := uuid_seq w (uuid_taken w)\<rparr>]\<rparr>),
            w\<lparr>uuid_taken := Suc (uuid_taken w)\<rparr>)"
  using assms by (simp add: SaveMessage_def uuid_New_def Let_def)

lemma ParseRequest_at:
  "fst (ParseRequest js w r body t) = fst (ParseRequest js (at_time (clock_seq w (clock_taken w))) r body t)"
  by (simp add: ParseRequest_def time_Now_def Let_def at_time_def split: option.splits)

lemma ParseResponse_at:
  "fst (ParseResponse js w resp body q d) =
     fst (ParseResponse js (at_time (clock_seq w (clock_taken w))) resp body q d)"
  by (simp add: ParseResponse_def time_Now_def Let_def at_time_def split: option.splits)

lemma capture_request_captured:
  assumes "IsA2ARequest r \<or> reqBody \<noteq> []"
  shows "capture_request js p w s r reqBody =
           (Some (request_of js p r reqBody (clock_seq w (clock_taken w)) (uuid_seq w (uuid_taken w))),
            (if uuid_seq w (uuid_taken w) \<in> set (map ID (messages s)) then s
             else s\<lparr>messages := messages s @
                    [request_of js p r reqBody (clock_seq w (clock_taken w))
                       (uuid_seq w (uuid_taken w))]\<rparr>),
            notify_message p
              (request_of js p r reqBody (clock_seq w (clock_taken w)) (uuid_seq w (uuid_taken w))),
            w\<lparr>clock_taken := Suc (clock_taken w), uuid_taken := Suc (uuid_taken w)\<rparr>)"
proof -
  obtain m w1 where pr: "ParseRequest js w r reqBody (proxy_traceID p) = (m, w1)"
    by (cases "ParseRequest js w r reqBody (proxy_traceID p)")
  have m: "ID m = []" and w1: "w1 = w\<lparr>clock_taken := Suc (clock_taken w)\<rparr>"
    using ParseRequest_ID [of js w r reqBody "proxy_traceID p"]
      ParseRequest_world [of js w r reqBody "proxy_traceID p"] by (simp_all add: pr)
  have q: "request_of js p r reqBody (clock_seq w (clock_taken w)) (uuid_seq w (uuid_taken w))
             = m\<lparr>ID := uuid_seq w (uuid_taken w)\<rparr>"
    using ParseRequest_at [of js w r reqBody "proxy_traceID p"] by (simp add: request_of_def pr)
  show ?thesis
    unfolding q using assms by (simp add: capture_request_def pr SaveMessage_new [OF m] w1)
qed

lemma capture_request_skipped:
  assumes "\<not> IsA2ARequest r" and "reqBody = []"
  shows "capture_request js p w s r reqBody = (None, s, [], w)"
  using assms by (simp add: capture_request_def)

lemma upstream_failed_captured:
  "upstream_failed p w s targetURL (Some reqMsg) startTime e =
     (http_Error (''Proxy error: '' @ Error_text e) 502,
      (if uuid_seq w (uuid_taken w) \<in> set (map ID (messages s)) then s
       else s\<lparr>messages := messages s @ [failure_of p targetURL reqMsg e (clock_seq w (clock_taken w))
          (time_Sub (clock_seq w (Suc (clock_taken w))) startTime) (uuid_seq w (uuid_taken w))]\<rparr>),
      notify_message p (failure_of p targetURL reqMsg e (clock_seq w (clock_taken w))
          (time_Sub (clock_seq w (Suc (clock_taken w))) startTime) (uuid_seq w (uuid_taken w))),
      w\<lparr>clock_taken := Suc (Suc (clock_taken w)), uuid_taken := Suc (uuid_taken w)\<rparr>)"
  by (simp add: upstream_failed_def time_Now_def time_Since_def Let_def SaveMessage_def
      uuid_New_def Message_zero_def failure_of_def)

lemma capture_response_plain:
  assumes "\<not> Contains (req_Path r) ''/.well-known/agent.json''"
  shows "capture_response js p w s r targetURL (Some reqMsg) resp respBody duration =
           ((if uuid_seq w (uuid_taken w) \<in> set (map ID (messages s)) then s
             else s\<lparr>messages := messages s @
                    [response_of js resp respBody reqMsg duration (clock_seq w (clock_taken w))
                       (uuid_seq w (uuid_taken w))]\<rparr>),
            notify_message p
              (response_of js resp respBody reqMsg duration (clock_seq w (clock_taken w))
                 (uuid_seq w (uuid_taken w))),
            w\<lparr>clock_taken := Suc (clock_taken w), uuid_taken := Suc (uuid_taken w)\<rparr>)"
proof -
  obtain m w1 where pr: "ParseResponse js w resp respBody reqMsg duration = (m, w1)"
    by (cases "ParseResponse js w resp respBody reqMsg duration")
  have m: "ID m = []" and w1: "w1 = w\<lparr>clock_taken := Suc (clock_taken w)\<rparr>"
    using ParseResponse_fields(1) [of js w resp respBody reqMsg duration]
      ParseResponse_world [of js w resp respBody reqMsg duration] by (simp_all add: pr)
  have a: "response_of js resp respBody reqMsg duration (clock_seq w (clock_taken w))
             (uuid_seq w (uuid_taken w)) = m\<lparr>ID := uuid_seq w (uuid_taken w)\<rparr>"
    using ParseResponse_at [of js w resp respBody reqMsg duration]
    by (simp add: response_of_def pr)
  show ?thesis
    unfolding a using assms by (simp add: capture_response_def pr SaveMessage_new [OF m] w1)
qed

lemma handleProxy_failed:
  assumes "req_Method r \<noteq> ''CONNECT''"
    and "ReadBody (req_Body r) = Some (reqBody, nb)"
    and "IsA2ARequest r \<or> reqBody \<noteq> []"
    and "NewRequest_error out = None"
    and "Do_result out = Failed e"
    and "uuid_seq w (uuid_taken w) \<notin> set (map ID (messages s))"
    and "uuid_seq w (Suc (uuid_taken w)) \<notin> set (map ID (messages s))"
    and "uuid_seq w (Suc (uuid_taken w)) \<noteq> uuid_seq w (uuid_taken w)"
  shows "handleProxy js p w s r out =
           (http_Error (''Proxy error: '' @ Error_text e) 502,
            s\<lparr>messages := messages s @
                [request_q js p w r reqBody,
                 failure_of p (target_of r) (request_q js p w r reqBody) e
                   (clock_seq w (Suc (Suc (clock_taken w))))
                   (time_Sub (clock_seq w (Suc (Suc (Suc (clock_taken w)))))
                      (clock_seq w (Suc (clock_taken w))))
                   (uuid_seq w (Suc (uuid_taken w)))]\<rparr>,
            notify_message p (request_q js p w r reqBody) @
            notify_message p
              (failure_of p (target_of r) (request_q js p w r reqBody) e
                 (clock_seq w (Suc (Suc (clock_taken w))))
                 (time_Sub (clock_seq w (Suc (Suc (Suc (clock_taken w)))))
                    (clock_seq w (Suc (clock_taken w))))
                 (uuid_seq w (Suc (uuid_taken w)))),
            w\<lparr>clock_taken := Suc (Suc (Suc (Suc (clock_taken w)))),
              uuid_taken := Suc (Suc (uuid_taken w))\<rparr>)"
proof -
  have id_q: "ID (request_q js p w r reqBody) = uuid_seq w (uuid_taken w)"
    by (simp add: request_of_def request_q_def)
  show ?thesis
    using assms
    by (simp add: handleProxy_def Let_def capture_request_captured time_Now_def
        upstream_failed_captured target_of_def id_q request_q_def [symmetric])
qed

lemma handleProxy_relay:
  assumes "req_Method r \<noteq> ''CONNECT''"
    and "ReadBody (req_Body r) \<noteq> None"
    and "NewRequest_error out = None"
    and "Do_result out = Responded resp"
    and "resp_Body resp = Some respBody"
  shows "fst (handleProxy js p w s r out) = Reply (resp_StatusCode resp) (resp_Header resp) respBody"
  using assms
  by (auto simp: handleProxy_def Let_def split: prod.splits option.splits)

lemma handleProxy_responded:
  assumes "req_Method r \<noteq> ''CONNECT''"
    and "ReadBody (req_Body r) = Some (reqBody, nb)"
    and "IsA2ARequest r \<or> reqBody \<noteq> []"
    and "NewRequest_error out = None"
    and "Do_result out = Responded resp"
    and "resp_Body resp = Some respBody"
    and "\<not> Contains (req_Path r) ''/.well-known/agent.json''"
    and "uuid_seq w (uuid_taken w) \<notin> set (map ID (messages s))"
    and "uuid_seq w (Suc (uuid_taken w)) \<notin> set (map ID (messages s))"
    and "uuid_seq w (Suc (uuid_taken w)) \<noteq> uuid_seq w (uuid_taken w)"
  shows "handleProxy js p w s r out =
           (Reply (resp_StatusCode resp) (resp_Header resp) respBody,
            s\<lparr>messages := messages s @
                [request_q js p w r reqBody,
                 response_of js resp respBody (request_q js p w r reqBody)
                   (time_Sub (clock_seq w (Suc (Suc (clock_taken w))))
                      (clock_seq w (Suc (clock_taken w))))
                   (clock_seq w (Suc (Suc (Suc (clock_taken w)))))
                   (uuid_seq w (Suc (uuid_taken w)))]\<rparr>,
            notify_message p (request_q js p w r reqBody) @
            notify_message p
              (response_of js resp respBody (request_q js p w r reqBody)
                   (time_Sub (clock_seq w (Suc (Suc (clock_taken w))))
                      (clock_seq w (Suc (clock_taken w))))
                   (clock_seq w (Suc (Suc (Suc (clock_taken w)))))
                   (uuid_seq w (Suc (uuid_taken w)))),
            w\<lparr>clock_taken := Suc (Suc (Suc (Suc (clock_taken w)))),
              uuid_taken := Suc (Suc (uuid_taken w))\<rparr>)"
proof -
  have id_q: "ID (request_q js p w r reqBody) = uuid_seq w (uuid_taken w)"
    by (simp add: request_of_def request_q_def)
  show ?thesis
  using assms
  by (simp add: handleProxy_def Let_def capture_request_captured time_Now_def time_Since_def
      capture_response_plain request_q_def [symmetric] id_q)
qed

lemma Error_text_nonempty: "Error_text e \<noteq> []"
  by (simp add: Error_text_def)

lemma SaveMessage_messages:
  "\<exists>xs. messages (fst (snd (snd (SaveMessage w s m)))) = messages s @ xs"
  by (simp add: SaveMessage_def uuid_New_def Let_def)

lemma SaveAgent_messages:
  "messages (fst (snd (snd (SaveAgent w s a)))) = messages s"
  by (simp add: SaveAgent_def uuid_New_def Let_def)

lemma upstream_failed_messages:
  "\<exists>xs. messages (fst (snd (upstream_failed p w s t qopt st e))) = messages s @ xs"
proof (cases qopt)
  case None
  then show ?thesis by (simp add: upstream_failed_def)
next
  case (Some q)
  show ?thesis
    unfolding Some upstream_failed_captured by simp
qed

lemma capture_response_messages:
  "\<exists>xs. messages (fst (capture_response js p w s r t qopt resp body d)) = messages s @ xs"
proof (cases qopt)
  case None
  then show ?thesis by (simp add: capture_response_def)
next
  case (Some q)
  obtain m w1 where pr: "ParseResponse js w resp body q d = (m, w1)"
    by (cases "ParseResponse js w resp body q d")
  obtain ok m1 s1 w2 where sm: "SaveMessage w1 s m = (ok, m1, s1, w2)"
    by (cases "SaveMessage w1 s m")
  obtain xs where s1: "messages s1 = messages s @ xs"
    using SaveMessage_messages [of w1 s m] by (auto simp: sm)
  show ?thesis
  proof (cases "Contains (req_Path r) ''/.well-known/agent.json''")
    case False
    then show ?thesis
      by (simp add: Some capture_response_def pr sm s1)
  next
    case True
    obtain ao w3 where pa: "ParseAgentCard js w2 body t = (ao, w3)"
      by (cases "ParseAgentCard js w2 body t")
    show ?thesis
    proof (cases ao)
      case None
      then show ?thesis
        using True by (simp add: Some capture_response_def pr sm s1 pa)
    next
      case (Some a0)
      obtain ok2 a1 s2 w4 where sa: "SaveAgent w3 s1 a0 = (ok2, a1, s2, w4)"
        by (cases "SaveAgent w3 s1 a0")
      have "messages s2 = messages s1"
        using SaveAgent_messages [of w3 s1 a0] by (simp add: sa)
      then show ?thesis
        using True by (simp add: \<open>qopt = Some q\<close> capture_response_def pr sm s1 pa Some sa)
    qed
  qed
qed

lemma handleProxy_messages_extend:
  assumes "req_Method r \<noteq> ''CONNECT''"
    and "ReadBody (req_Body r) = Some (reqBody, nb)"
    and cr: "capture_request js p w s r reqBody = (qo, s1, evs1, w1)"
  shows "\<exists>xs. messages (fst (snd (handleProxy js p w s r out))) = messages s1 @ xs"
proof -
  obtain st w2 where tn: "time_Now w1 = (st, w2)"
    by (cases "time_Now w1")
  show ?thesis
  proof (cases "NewRequest_error out")
    case (Some err)
    then show ?thesis
      using assms(1,2) by (simp add: handleProxy_def Let_def cr tn)
  next
    case None
    show ?thesis
    proof (cases "Do_result out")
      case (Failed e)
      let ?t = "if \<not> HasPrefix (req_URL r) ''http''
                then ''http://'' @ req_Host r @ req_RequestURI r else req_URL r"
      obtain rep s2 evs w3 where uf: "upstream_failed p w2 s1 ?t qo st e = (rep, s2, evs, w3)"
        by (cases "upstream_failed p w2 s1 ?t qo st e")
      obtain xs where "messages s2 = messages s1 @ xs"
        using upstream_failed_messages [of p w2 s1 ?t qo st e] by (auto simp: uf)
      then show ?thesis
        using assms(1,2) None Failed uf by (simp add: handleProxy_def Let_def cr tn)
    next
      case (Responded resp)
      obtain d w3 where ts: "time_Since w2 st = (d, w3)"
        by (cases "time_Since w2 st")
      show ?thesis
      proof (cases "resp_Body resp")
        case None
        then show ?thesis
          using assms(1,2) \<open>NewRequest_error out = None\<close> Responded
          by (simp add: handleProxy_def Let_def cr tn ts)
      next
        case (Some body)
        let ?t = "if \<not> HasPrefix (req_URL r) ''http''
                  then ''http://'' @ req_Host r @ req_RequestURI r else req_URL r"
        obtain s2 evs w4 where cp:
          "capture_response js p w3 s1 r ?t qo resp body d = (s2, evs, w4)"
          by (cases "capture_response js p w3 s1 r ?t qo resp body d")
        obtain xs where "messages s2 = messages s1 @ xs"
          using capture_response_messages [of js p w3 s1 r ?t qo resp body d]
          by (auto simp: cp)
        then show ?thesis
          using assms(1,2) \<open>NewRequest_error out = None\<close> Responded Some cp
          by (simp add: handleProxy_def Let_def cr tn ts)
      qed
    qed
  qed
qed

lemma handleProxy_request_first:
  assumes "req_Method r \<noteq> ''CONNECT''"
    and "ReadBody (req_Body r) = Some (reqBody, nb)"
    and "IsA2ARequest r \<or> reqBody \<noteq> []"
    and "uuid_seq w (uuid_taken w) \<notin> set (map ID (messages s))"
  shows "\<exists>rest. messages (fst (snd (handleProxy js p w s r out)))
                  = messages s @ request_q js p w r reqBody # rest"
proof -
  obtain qo s1 evs1 w1 where cr: "capture_request js p w s r reqBody = (qo, s1, evs1, w1)"
    by (cases "capture_request js p w s r reqBody")
  have "messages s1 = messages s @ [request_q js p w r reqBody]"
    using capture_request_captured [OF assms(3), of js p w s] assms(4)
    by (simp add: cr request_q_def)
  then show ?thesis
    using handleProxy_messages_extend [OF assms(1,2) cr, of out] by auto
qed

text \<open>
  For a numeric JSON-RPC id, \<open>formatRequestID\<close> converts the number to a rune and the
  rune to a string: the id 7 gives the single byte 07, and the ids 46 and 48 give the
  empty string.
\<close>

lemma formatRequestID_numeric_character_cast:
  "formatRequestID js (IdNumber 7) = [CHR 0x07]"
  "formatRequestID js (IdNumber 46) = []"
  "formatRequestID js (IdNumber 48) = []"
  by (simp_all add: formatRequestID_def string_of_rune_def rune_def byte_def char_of_def
      TrimSuffix_def HasSuffix_def HasPrefix_def)

text \<open>
  Claim C1, as amended. For every captured request, whatever the upstream does, the first
  message the proxy appends to the store is the request Message, with the identifier the
  store assigned to it. Its own correlation identifier is determined by the JSON-RPC
  envelope of its body: empty when the body does not decode to an envelope or the
  envelope has no id, the id itself when the id is a string, and the JSON encoding of
  the id when the id is neither a string nor a number (numeric ids are left aside). When
  the upstream call fails, the only other message appended is a response Message whose
  correlation identifier equals the identifier of the request Message. (The identifiers
  drawn are taken to be new to the store and different from each other.)
\<close>

theorem captured_request_correlation:
  assumes "req_Method r \<noteq> ''CONNECT''"
    and "ReadBody (req_Body r) = Some (reqBody, nb)"
    and "IsA2ARequest r \<or> reqBody \<noteq> []"
    and "uuid_seq w (uuid_taken w) \<notin> set (map ID (messages s))"
  shows "case handleProxy js p w s r out of
           (rep, s1, evs, w1) \<Rightarrow>
             take (length (messages s)) (messages s1) = messages s \<and>
             (case drop (length (messages s)) (messages s1) of
                [] \<Rightarrow> False
              | q # rest \<Rightarrow>
                  Direction q = ''request'' \<and> ID q = uuid_seq w (uuid_taken w) \<and>
                  (case Unmarshal_A2ARequest js reqBody of
                     None \<Rightarrow> RequestID q = []
                   | Some c \<Rightarrow>
                       (case rpc_ID c of
                          None \<Rightarrow> RequestID q = []
                        | Some (IdString i) \<Rightarrow> RequestID q = i
                        | Some (IdNumber n) \<Rightarrow> True
                        | Some (IdOther v) \<Rightarrow> RequestID q = Marshal js v)) \<and>
                  (NewRequest_error out = None \<and> (\<exists>e. Do_result out = Failed e) \<and>
                   uuid_seq w (Suc (uuid_taken w)) \<notin> set (map ID (messages s)) \<and>
                   uuid_seq w (Suc (uuid_taken w)) \<noteq> uuid_seq w (uuid_taken w)
                   \<longrightarrow> (case rest of
                          [a] \<Rightarrow> Direction a = ''response'' \<and> RequestID a = ID q
                        | _ \<Rightarrow> False)))"
proof -
  let ?q = "request_q js p w r reqBody"
  obtain rep s1 evs w1 where hp: "handleProxy js p w s r out = (rep, s1, evs, w1)"
    by (cases "handleProxy js p w s r out")
  obtain rest where m: "messages s1 = messages s @ ?q # rest"
    using handleProxy_request_first [OF assms, of js p out] by (auto simp: hp)
  have q: "Direction ?q = ''request''" "ID ?q = uuid_seq w (uuid_taken w)"
    by (simp_all add: request_q_def request_of_def ParseRequest_Direction)
  have rid: "case Unmarshal_A2ARequest js reqBody of
               None \<Rightarrow> RequestID ?q = []
             | Some c \<Rightarrow>
                 (case rpc_ID c of
                    None \<Rightarrow> RequestID ?q = []
                  | Some (IdString i) \<Rightarrow> RequestID ?q = i
                  | Some (IdNumber n) \<Rightarrow> True
                  | Some (IdOther v) \<Rightarrow> RequestID ?q = Marshal js v)"
    by (simp add: request_q_def request_of_def ParseRequest_RequestID formatRequestID_def
        split: option.splits json_id.splits)
  have failed: "case rest of [a] \<Rightarrow> Direction a = ''response'' \<and> RequestID a = ID ?q | _ \<Rightarrow> False"
    if "NewRequest_error out = None" and "Do_result out = Failed e"
      and "uuid_seq w (Suc (uuid_taken w)) \<notin> set (map ID (messages s))"
      and "uuid_seq w (Suc (uuid_taken w)) \<noteq> uuid_seq w (uuid_taken w)" for e
  proof -
    let ?f = "failure_of p (target_of r) ?q e (clock_seq w (Suc (Suc (clock_taken w))))
                (time_Sub (clock_seq w (Suc (Suc (Suc (clock_taken w)))))
                   (clock_seq w (Suc (clock_taken w))))
                (uuid_seq w (Suc (uuid_taken w)))"
    have "messages s1 = messages s @ [?q, ?f]"
      using handleProxy_failed [OF assms(1,2,3) that(1,2) assms(4) that(3,4), of js p]
      by (simp add: hp)
    with m have "rest = [?f]" by simp
    then show ?thesis
      by (simp add: failure_of_def Message_zero_def)
  qed
  show ?thesis
    using failed rid by (auto simp: hp m q)
qed

text \<open>
  Claim C4. When \<^verbatim>\<open>client.Do\<close> fails for a captured request, the caller is answered
  with status 502; the store gains the request Message and a response Message with status
  zero, the text of the transport error (never empty) as error text, the milliseconds
  between the reading of the clock taken just before the upstream call (\<open>startTime\<close>,
  the second reading of the traversal) and the reading taken by \<^verbatim>\<open>time.Since\<close> (the
  fourth) as duration, and the identifier of the request Message as correlation
  identifier; both messages are handed to \<open>onMessage\<close>, in this order; and any later
  request whose upstream answers is relayed with the upstream's status, headers and body.
  (The identifiers drawn for the two messages are taken to be new to the store and
  different from each other, and the handler to be set.)
\<close>

theorem upstream_failure_synthetic_response:
  assumes "req_Method r \<noteq> ''CONNECT''"
    and "ReadBody (req_Body r) = Some (reqBody, nb)"
    and "IsA2ARequest r \<or> reqBody \<noteq> []"
    and "NewRequest_error out = None"
    and "Do_result out = Failed e"
    and "uuid_seq w (uuid_taken w) \<notin> set (map ID (messages s))"
    and "uuid_seq w (Suc (uuid_taken w)) \<notin> set (map ID (messages s))"
    and "uuid_seq w (Suc (uuid_taken w)) \<noteq> uuid_seq w (uuid_taken w)"
    and "onMessage p"
  shows "case handleProxy js p w s r out of
           (rep, s1, evs, w1) \<Rightarrow>
             (case rep of Reply code h b \<Rightarrow> code = 502 | ConnectTunnel \<Rightarrow> False) \<and>
             take (length (messages s)) (messages s1) = messages s \<and>
             (case drop (length (messages s)) (messages s1) of
                [q, a] \<Rightarrow>
                  evs = [MessageEvent q, MessageEvent a] \<and>
                  Direction q = ''request'' \<and> Direction a = ''response'' \<and>
                  StatusCode a = 0 \<and> Error a = Error_text e \<and> Error a \<noteq> [] \<and>
                  DurationMs a =
                    Milliseconds (time_Sub (clock_seq w (clock_taken w + 3))
                                           (clock_seq w (clock_taken w + 1))) \<and>
                  RequestID a = ID q \<and> ID q = uuid_seq w (uuid_taken w)
              | _ \<Rightarrow> False) \<and>
             (\<forall>r2 out2 resp2 body2.
                req_Method r2 \<noteq> ''CONNECT'' \<and> ReadBody (req_Body r2) \<noteq> None \<and>
                NewRequest_error out2 = None \<and> Do_result out2 = Responded resp2 \<and>
                resp_Body resp2 = Some body2
                \<longrightarrow> fst (handleProxy js p w1 s1 r2 out2) =
                      Reply (resp_StatusCode resp2) (resp_Header resp2) body2)"
proof -
  have "handleProxy js p w s r out =
           (http_Error (''Proxy error: '' @ Error_text e) 502,
            s\<lparr>messages := messages s @
                [request_q js p w r reqBody,
                 failure_of p (target_of r) (request_q js p w r reqBody) e
                   (clock_seq w (Suc (Suc (clock_taken w))))
                   (time_Sub (clock_seq w (Suc (Suc (Suc (clock_taken w)))))
                      (clock_seq w (Suc (clock_taken w))))
                   (uuid_seq w (Suc (uuid_taken w)))]\<rparr>,
            notify_message p (request_q js p w r reqBody) @
            notify_message p
              (failure_of p (target_of r) (request_q js p w r reqBody) e
                 (clock_seq w (Suc (Suc (clock_taken w))))
                 (time_Sub (clock_seq w (Suc (Suc (Suc (clock_taken w)))))
                    (clock_seq w (Suc (clock_taken w))))
                 (uuid_seq w (Suc (uuid_taken w)))),
            w\<lparr>clock_taken := Suc (Suc (Suc (Suc (clock_taken w)))),
              uuid_taken := Suc (Suc (uuid_taken w))\<rparr>)"
    using assms(1-8) by (rule handleProxy_failed)
  then show ?thesis
    using assms(9)
    by (simp add: request_q_def request_of_def failure_of_def Message_zero_def
        ParseRequest_Direction http_Error_def notify_message_def Error_text_nonempty
        handleProxy_relay numeral_3_eq_3)
qed

lemma demo_world_simps:
  "uuid_taken demo_world = 0" "clock_taken demo_world = 0"
  "uuid_seq demo_world n = ''3f0c9a52-7b1e-4d6a-9c2f-00000000000'' @ [digit_char (n mod 10)]"
  "clock_seq demo_world n = 1700000000000000000 + int n * 40000000"
  by (simp_all add: demo_world_def)

lemma post_create_body:
  "req_Method post_create \<noteq> ''CONNECT''"
  "ReadBody (req_Body post_create) = Some (body_create, Stream (Some body_create))"
  "body_create \<noteq> []"
  by (simp_all add: post_create_def ReadBody_def body_create_def)

text \<open>
  Claim C1, as amended, at a JSON-RPC POST with the string id \<open>"7"\<close> whose upstream
  refuses the connection.
\<close>

theorem captured_request_correlation_witness:
  "case handleProxy demo_json demo_proxy demo_world empty_store post_create refused of
     (rep, s1, evs, w1) \<Rightarrow>
       (case messages s1 of
          [q, a] \<Rightarrow> ID q = ''3f0c9a52-7b1e-4d6a-9c2f-000000000000''
                    \<and> RequestID a = ''3f0c9a52-7b1e-4d6a-9c2f-000000000000''
                    \<and> RequestID q = ''7''
        | _ \<Rightarrow> False)"
proof -
  have h: "req_Method post_create \<noteq> ''CONNECT''"
    "ReadBody (req_Body post_create) = Some (body_create, Stream (Some body_create))"
    "IsA2ARequest post_create \<or> body_create \<noteq> []"
    "uuid_seq demo_world (uuid_taken demo_world) \<notin> set (map ID (messages empty_store))"
    by (simp_all add: post_create_body empty_store_def)
  obtain rep s1 evs w1 where
    eq: "handleProxy demo_json demo_proxy demo_world empty_store post_create refused = (rep, s1, evs, w1)"
    by (cases "handleProxy demo_json demo_proxy demo_world empty_store post_create refused")
  from captured_request_correlation
    [OF h, where js = demo_json and p = demo_proxy and out = refused]
  show ?thesis
    unfolding eq
    by (auto simp: empty_store_def demo_world_simps digit_char_def demo_json_def
        refused_def split: list.splits)
qed

text \<open>
  Claim C1 as stated fails when the upstream answers: for a JSON-RPC POST with
  \<open>"id":"7"\<close> answered with 200, the request Message has the identifier assigned by the
  store and the correlation identifier \<open>7\<close>, and the response Message has the
  correlation identifier \<open>7\<close> as well, which is not the identifier of the request.
\<close>

theorem success_path_correlation_counterexample:
  "case handleProxy demo_json demo_proxy demo_world empty_store post_create answered_ok of
     (rep, s1, evs, w1) \<Rightarrow>
       (case messages s1 of
          [q, a] \<Rightarrow> Direction q = ''request'' \<and> Direction a = ''response''
                    \<and> ID q = ''3f0c9a52-7b1e-4d6a-9c2f-000000000000''
                    \<and> RequestID q = ''7'' \<and> RequestID a = ''7''
                    \<and> RequestID q \<noteq> ID q \<and> RequestID a \<noteq> ID q
        | _ \<Rightarrow> False)"
proof -
  have "handleProxy demo_json demo_proxy demo_world empty_store post_create answered_ok =
           (Reply (resp_StatusCode \<lparr>resp_StatusCode = 200,
                              resp_Header = [(''Content-Type'', [''application/json''])],
                              resp_Body = Some body_result\<rparr>) (resp_Header \<lparr>resp_StatusCode = 200,
                              resp_Header = [(''Content-Type'', [''application/json''])],
                              resp_Body = Some body_result\<rparr>) body_result,
            empty_store\<lparr>messages := messages empty_store @
                [request_q demo_json demo_proxy demo_world post_create body_create,
                 response_of demo_json \<lparr>resp_StatusCode = 200,
                              resp_Header = [(''Content-Type'', [''application/json''])],
                              resp_Body = Some body_result\<rparr> body_result (request_q demo_json demo_proxy demo_world post_create body_create)
                   (time_Sub (clock_seq demo_world (Suc (Suc (clock_taken demo_world))))
                      (clock_seq demo_world (Suc (clock_taken demo_world))))
                   (clock_seq demo_world (Suc (Suc (Suc (clock_taken demo_world)))))
                   (uuid_seq demo_world (Suc (uuid_taken demo_world)))]\<rparr>,
            notify_message demo_proxy (request_q demo_json demo_proxy demo_world post_create body_create) @
            notify_message demo_proxy
              (response_of demo_json \<lparr>resp_StatusCode = 200,
                              resp_Header = [(''Content-Type'', [''application/json''])],
                              resp_Body = Some body_result\<rparr> body_result (request_q demo_json demo_proxy demo_world post_create body_create)
                 (time_Sub (clock_seq demo_world (Suc (Suc (clock_taken demo_world))))
                    (clock_seq demo_world (Suc (clock_taken demo_world))))
                 (clock_seq demo_world (Suc (Suc (Suc (clock_taken demo_world)))))
                 (uuid_seq demo_world (Suc (uuid_taken demo_world)))),
            demo_world\<lparr>clock_taken := Suc (Suc (Suc (Suc (clock_taken demo_world)))),
              uuid_taken := Suc (Suc (uuid_taken demo_world))\<rparr>)"
    by (rule handleProxy_responded [where nb = "Stream (Some body_create)"])
      (simp_all add: post_create_body answered_ok_def empty_store_def demo_world_simps
        digit_char_def, simp add: post_create_def HasPrefix_def)
  then show ?thesis
    by (simp add: empty_store_def request_q_def request_of_def response_of_def
        ParseRequest_Direction ParseRequest_RequestID ParseResponse_fields demo_world_simps
        digit_char_def demo_json_def formatRequestID_def)
qed

text \<open>
  Claim C4 at a JSON-RPC POST whose upstream refuses the connection, followed by the same
  POST answered with 200.
\<close>

theorem upstream_failure_synthetic_response_witness:
  "case handleProxy demo_json demo_proxy demo_world empty_store post_create refused of
     (rep, s1, evs, w1) \<Rightarrow>
       (case rep of Reply code h b \<Rightarrow> code = 502 | ConnectTunnel \<Rightarrow> False) \<and>
       (case messages s1 of
          [q, a] \<Rightarrow> evs = [MessageEvent q, MessageEvent a] \<and> StatusCode a = 0
                    \<and> Error a = ''Post '' @ [CHR 0x22] @ ''http://example/'' @ [CHR 0x22]
                                @ '': dial tcp 93.184.216.34:80: connect: connection refused''
                    \<and> DurationMs a = 80
                    \<and> RequestID a = ''3f0c9a52-7b1e-4d6a-9c2f-000000000000''
                    \<and> ID q = ''3f0c9a52-7b1e-4d6a-9c2f-000000000000''
        | _ \<Rightarrow> False) \<and>
       fst (handleProxy demo_json demo_proxy w1 s1 post_create answered_ok) =
         Reply 200 [(''Content-Type'', [''application/json''])] body_result"
proof -
  define e where "e = \<lparr>err_Op = ''Post'', err_QuotedURL = [CHR 0x22] @ ''http://example/'' @ [CHR 0x22],
                          err_Err = ''dial tcp 93.184.216.34:80: connect: connection refused''\<rparr>"
  have inst: "case handleProxy demo_json demo_proxy demo_world empty_store post_create refused of
           (rep, s1, evs, w1) \<Rightarrow>
             (case rep of Reply code h b \<Rightarrow> code = 502 | ConnectTunnel \<Rightarrow> False) \<and>
             take (length (messages empty_store)) (messages s1) = messages empty_store \<and>
             (case drop (length (messages empty_store)) (messages s1) of
                [q, a] \<Rightarrow>
                  evs = [MessageEvent q, MessageEvent a] \<and>
                  Direction q = ''request'' \<and> Direction a = ''response'' \<and>
                  StatusCode a = 0 \<and> Error a = Error_text e \<and> Error a \<noteq> [] \<and>
                  DurationMs a =
                    Milliseconds (time_Sub (clock_seq demo_world (clock_taken demo_world + 3))
                                           (clock_seq demo_world (clock_taken demo_world + 1))) \<and>
                  RequestID a = ID q \<and> ID q = uuid_seq demo_world (uuid_taken demo_world)
              | _ \<Rightarrow> False) \<and>
             (\<forall>r2 out2 resp2 body2.
                req_Method r2 \<noteq> ''CONNECT'' \<and> ReadBody (req_Body r2) \<noteq> None \<and>
                NewRequest_error out2 = None \<and> Do_result out2 = Responded resp2 \<and>
                resp_Body resp2 = Some body2
                \<longrightarrow> fst (handleProxy demo_json demo_proxy w1 s1 r2 out2) =
                      Reply (resp_StatusCode resp2) (resp_Header resp2) body2)"
    by (rule upstream_failure_synthetic_response
          [where nb = "Stream (Some body_create)" and reqBody = body_create])
      (simp_all add: post_create_body refused_def empty_store_def demo_world_simps
        digit_char_def demo_proxy_def e_def)
  obtain rep s1 evs w1 where
    eq: "handleProxy demo_json demo_proxy demo_world empty_store post_create refused = (rep, s1, evs, w1)"
    by (cases "handleProxy demo_json demo_proxy demo_world empty_store post_create refused")
  have next_one: "req_Method post_create \<noteq> ''CONNECT'' \<and> ReadBody (req_Body post_create) \<noteq> None \<and>
                NewRequest_error answered_ok = None \<and> Do_result answered_ok = Responded \<lparr>resp_StatusCode = 200,
                              resp_Header = [(''Content-Type'', [''application/json''])],
                              resp_Body = Some body_result\<rparr> \<and>
                resp_Body \<lparr>resp_StatusCode = 200,
                              resp_Header = [(''Content-Type'', [''application/json''])],
                              resp_Body = Some body_result\<rparr> = Some body_result"
    by (simp add: post_create_body answered_ok_def)
  from inst have served: "fst (handleProxy demo_json demo_proxy w1 s1 post_create answered_ok) =
         Reply 200 [(''Content-Type'', [''application/json''])] body_result"
    unfolding eq using next_one by force
  from inst served show ?thesis
    unfolding eq
    by (auto simp: empty_store_def demo_world_simps digit_char_def Error_text_def e_def
        Milliseconds_def time_Sub_def quo_def split: list.splits)
qed

lemma SaveAgent_existing:
  assumes "agent_URL agent \<in> set (map agent_URL (agents s))"
  shows "SaveAgent w s agent =
           (True,
            (if agent_ID agent = [] then agent\<lparr>agent_ID := uuid_seq w (uuid_taken w)\<rparr> else agent),
            s\<lparr>agents := map (\<lambda>row. if agent_URL row = agent_URL agent
                                     then row\<lparr>Name := Name agent, Description := Description agent,
                                              Version := Version agent, Skills := Skills agent\<rparr>
                                     else row) (agents s)\<rparr>,
            (if agent_ID agent = [] then w\<lparr>uuid_taken := Suc (uuid_taken w)\<rparr> else w))"
  using assms by (simp add: SaveAgent_def uuid_New_def Let_def comp_def)

text \<open>
  Claim C10. When \<open>SaveAgent\<close> is given an agent whose URL is already in the table, the
  write succeeds; the table keeps its length and, position by position, its identifiers,
  first-seen times and URLs; every row with that URL takes the name, description, version
  and skills of the given agent and every other row is unchanged; a table whose URLs were
  distinct still holds exactly one row for the URL; messages and insights are untouched.
\<close>

theorem SaveAgent_upsert_existing_url:
  assumes "agent_URL agent \<in> set (map agent_URL (agents s))"
  shows "case SaveAgent w s agent of
           (ok, agent1, s1, w1) \<Rightarrow>
             ok \<and> length (agents s1) = length (agents s)
             \<and> map agent_ID (agents s1) = map agent_ID (agents s)
             \<and> map FirstSeen (agents s1) = map FirstSeen (agents s)
             \<and> map agent_URL (agents s1) = map agent_URL (agents s)
             \<and> (\<forall>i < length (agents s).
                   if agent_URL (agents s ! i) = agent_URL agent
                   then Name (agents s1 ! i) = Name agent
                        \<and> Description (agents s1 ! i) = Description agent
                        \<and> Version (agents s1 ! i) = Version agent
                        \<and> Skills (agents s1 ! i) = Skills agent
                   else agents s1 ! i = agents s ! i)
             \<and> (distinct (map agent_URL (agents s)) \<longrightarrow>
                  length (filter (\<lambda>row. agent_URL row = agent_URL agent) (agents s1)) = 1)
             \<and> messages s1 = messages s \<and> insights s1 = insights s"
proof -
  let ?f = "\<lambda>row. if agent_URL row = agent_URL agent
                   then row\<lparr>Name := Name agent, Description := Description agent,
                            Version := Version agent, Skills := Skills agent\<rparr>
                   else row"
  have ids: "map agent_ID (map ?f rows) = map agent_ID rows" for rows
    by (induction rows) auto
  have fs: "map FirstSeen (map ?f rows) = map FirstSeen rows" for rows
    by (induction rows) auto
  have urls: "map agent_URL (map ?f rows) = map agent_URL rows" for rows
    by (induction rows) auto
  have count: "length (filter ((\<lambda>row. agent_URL row = agent_URL agent) \<circ> ?f) rows)
                 = length (filter (\<lambda>row. agent_URL row = agent_URL agent) rows)" for rows
    by (induction rows) auto
  have one: "distinct (map agent_URL rows) \<Longrightarrow> u \<in> agent_URL ` set rows
               \<Longrightarrow> length (filter (\<lambda>row. agent_URL row = u) rows) = 1"
    for rows :: "Agent list" and u
    by (induction rows) (auto simp: filter_empty_conv image_iff)
  show ?thesis
    using assms one [of "agents s" "agent_URL agent"]
    by (simp add: SaveAgent_existing [OF assms] ids fs urls count)
qed

text \<open>Claim C10 at a table holding one agent, saved again with new card data.\<close>

theorem SaveAgent_upsert_existing_url_witness:
  "case SaveAgent demo_world store_with_bob bob_v2 of
     (ok, agent1, s1, w1) \<Rightarrow>
       ok \<and> map agent_ID (agents s1) = [''3f0c9a52-7b1e-4d6a-9c2f-000000000004'']
       \<and> map FirstSeen (agents s1) = [1700000000000000000]
       \<and> map agent_URL (agents s1) = [''http://agent.local/.well-known/agent.json'']
       \<and> map Name (agents s1) = [''Bob II''] \<and> map Version (agents s1) = [''2.0'']
       \<and> map Description (agents s1) = [''greeter and planner'']
       \<and> map Skills (agents s1) = [Skills bob_v2]"
proof -
  have h: "agent_URL bob_v2 \<in> set (map agent_URL (agents store_with_bob))"
    by (simp add: bob_v2_def bob_v1_def store_with_bob_def)
  obtain ok agent1 s1 w1 where
    eq: "SaveAgent demo_world store_with_bob bob_v2 = (ok, agent1, s1, w1)"
    by (cases "SaveAgent demo_world store_with_bob bob_v2")
  from SaveAgent_upsert_existing_url [OF h, of demo_world] show ?thesis
    unfolding eq
    by (cases "agents s1") (auto simp: store_with_bob_def bob_v1_def bob_v2_def)
qed

section \<open>Analyzer: insights\<close>

lemma SaveInsight_view: "insight_view (fst (snd (SaveInsight w s i))) = insight_view i"
  by (simp add: SaveInsight_def uuid_New_def Let_def insight_view_def)

lemma save_insights_view:
  "map insight_view (fst (save_insights w s n xs)) = map insight_view xs"
proof (induction xs arbitrary: w s)
  case Nil
  then show ?case by simp
next
  case (Cons i rest)
  obtain ok i1 s1 w1 where si: "SaveInsight w s i = (ok, i1, s1, w1)"
    by (cases "SaveInsight w s i")
  obtain rest1 s2 sent w2 where sr: "save_insights w1 s1 n rest = (rest1, s2, sent, w2)"
    by (cases "save_insights w1 s1 n rest")
  have "insight_view i1 = insight_view i"
    using SaveInsight_view [of w s i] by (simp add: si)
  moreover have "map insight_view rest1 = map insight_view rest"
    using Cons.IH [of w1 s1] by (simp add: sr)
  ultimately show ?case by (simp add: si sr)
qed

lemma checkSlowResponse_view:
  "map insight_view (opt_list (fst (checkSlowResponse js w a msg))) =
     (if DurationMs msg \<le> Milliseconds (slowThreshold a) then []
      else [(''slow_response'', ''warning'', ''Slow Response Detected'',
             formatSlowResponseDetails js msg, ID msg)])"
  by (simp add: checkSlowResponse_def opt_list_def insight_view_def uuid_New_def time_Now_def
      Let_def)

lemma checkError_view:
  "map (fst \<circ> insight_view) (opt_list (fst (checkError js w a msg))) =
     (if Error msg = [] \<and> StatusCode msg < 400 then [] else [''error''])"
  by (simp add: checkError_def opt_list_def insight_view_def uuid_New_def time_Now_def Let_def)

lemma checkError_analyzer:
  "methodCounts (fst (snd (checkError js w a msg))) = methodCounts a"
  "analyzer_traceID (fst (snd (checkError js w a msg))) = analyzer_traceID a"
  "slowThreshold (fst (snd (checkError js w a msg))) = slowThreshold a"
  "onInsight (fst (snd (checkError js w a msg))) = onInsight a"
  by (simp_all add: checkError_def uuid_New_def time_Now_def Let_def)

lemma checkProtocolViolation_view:
  "map (fst \<circ> insight_view) (opt_list (fst (checkProtocolViolation js w a msg))) =
     (if protocol_violations js msg = [] then [] else [''protocol_violation''])"
  by (simp add: checkProtocolViolation_def opt_list_def insight_view_def uuid_New_def
      time_Now_def Let_def)

lemma checkRetryLoop_view:
  "map insight_view (opt_list (fst (checkRetryLoop js w a msg))) =
     (if Method msg \<noteq> [] \<and> 0 < map_get (methodCounts a) (Method msg)
         \<and> map_get (methodCounts a) (Method msg) mod 5 = 0
      then [(''retry_loop'', ''warning'', ''Potential Retry Loop Detected'',
             formatRetryLoopDetails js (Method msg) (map_get (methodCounts a) (Method msg)),
             ID msg)]
      else [])"
  by (simp add: checkRetryLoop_def opt_list_def insight_view_def uuid_New_def time_Now_def
      Let_def)

lemma AnalyzeMessage_analyzer:
  "methodCounts (fst (snd (AnalyzeMessage js w a s msg))) =
     (if Direction msg = ''request'' then map_incr (methodCounts a) (Method msg)
      else methodCounts a)"
  "slowThreshold (fst (snd (AnalyzeMessage js w a s msg))) = slowThreshold a"
  by (simp_all add: AnalyzeMessage_def Let_def split_beta checkError_analyzer)

lemma AnalyzeMessage_slow:
  "filter (\<lambda>v. fst v = ''slow_response'')
     (map insight_view (fst (AnalyzeMessage js w a s msg))) =
     (if Direction msg = ''response'' \<and> Milliseconds (slowThreshold a) < DurationMs msg
      then [(''slow_response'', ''warning'', ''Slow Response Detected'',
             formatSlowResponseDetails js msg, ID msg)]
      else [])"
proof -
  have other: "filter (\<lambda>v. fst v = ''slow_response'') (map insight_view xs) = []"
    if "set (map (fst \<circ> insight_view) xs) \<subseteq> {''error'', ''protocol_violation'', ''retry_loop''}"
    for xs
    using that by (induction xs) auto
  have e: "filter (\<lambda>v. fst v = ''slow_response'')
             (map insight_view (opt_list (fst (checkError js w' a' msg)))) = []" for w' a'
    by (rule other) (simp add: checkError_view)
  have v: "filter (\<lambda>v. fst v = ''slow_response'')
             (map insight_view (opt_list (fst (checkProtocolViolation js w' a' msg)))) = []" for w' a'
    by (rule other) (simp add: checkProtocolViolation_view)
  have r: "filter (\<lambda>v. fst v = ''slow_response'')
             (map insight_view (opt_list (fst (checkRetryLoop js w' a' msg)))) = []" for w' a'
    by (simp add: checkRetryLoop_view)
  show ?thesis
    by (simp add: AnalyzeMessage_def Let_def split_beta save_insights_view
        checkSlowResponse_view e v r)
qed

lemma AnalyzeMessage_retry:
  "filter (\<lambda>v. fst v = ''retry_loop'')
     (map insight_view (fst (AnalyzeMessage js w a s msg))) =
     (let n = map_get (if Direction msg = ''request''
                       then map_incr (methodCounts a) (Method msg) else methodCounts a)
                (Method msg)
      in if Method msg \<noteq> [] \<and> 0 < n \<and> n mod 5 = 0
         then [(''retry_loop'', ''warning'', ''Potential Retry Loop Detected'',
                formatRetryLoopDetails js (Method msg) n, ID msg)]
         else [])"
proof -
  have other: "filter (\<lambda>v. fst v = ''retry_loop'') (map insight_view xs) = []"
    if "set (map (fst \<circ> insight_view) xs) \<subseteq> {''error'', ''protocol_violation'', ''slow_response''}"
    for xs
    using that by (induction xs) auto
  have e: "filter (\<lambda>v. fst v = ''retry_loop'')
             (map insight_view (opt_list (fst (checkError js w' a' msg)))) = []" for w' a'
    by (rule other) (simp add: checkError_view)
  have v: "filter (\<lambda>v. fst v = ''retry_loop'')
             (map insight_view (opt_list (fst (checkProtocolViolation js w' a' msg)))) = []" for w' a'
    by (rule other) (simp add: checkProtocolViolation_view)
  have sl: "filter (\<lambda>v. fst v = ''retry_loop'')
             (map insight_view (opt_list (fst (checkSlowResponse js w' a' msg)))) = []" for w' a'
    by (simp add: checkSlowResponse_view)
  show ?thesis
    by (simp add: AnalyzeMessage_def Let_def split_beta save_insights_view
        checkRetryLoop_view e v sl checkError_analyzer)
qed

lemma map_get_incr:
  "map_get (map_incr m k) k' = (if k' = k then map_get m k + 1 else map_get m k')"
  by (simp add: map_get_def map_incr_def)

lemma feed_methodCounts:
  "map_get (methodCounts (fst (feed js w a s msgs))) m =
     map_get (methodCounts a) m
     + int (length (filter (\<lambda>x. Direction x = ''request'' \<and> Method x = m) msgs))"
proof (induction msgs arbitrary: w a s)
  case Nil
  then show ?case by simp
next
  case (Cons msg rest)
  obtain found a1 s1 sent w1 where am: "AnalyzeMessage js w a s msg = (found, a1, s1, sent, w1)"
    by (cases "AnalyzeMessage js w a s msg")
  have a1: "methodCounts a1 = (if Direction msg = ''request''
                              then map_incr (methodCounts a) (Method msg) else methodCounts a)"
    using AnalyzeMessage_analyzer(1) [of js w a s msg] by (simp add: am)
  show ?case
    using Cons.IH [of w1 a1 s1] by (auto simp: am a1 map_get_incr)
qed

lemma feed_slowThreshold:
  "slowThreshold (fst (feed js w a s msgs)) = slowThreshold a"
proof (induction msgs arbitrary: w a s)
  case Nil
  then show ?case by simp
next
  case (Cons msg rest)
  obtain found a1 s1 sent w1 where am: "AnalyzeMessage js w a s msg = (found, a1, s1, sent, w1)"
    by (cases "AnalyzeMessage js w a s msg")
  have "slowThreshold a1 = slowThreshold a"
    using AnalyzeMessage_analyzer(2) [of js w a s msg] by (simp add: am)
  then show ?case
    using Cons.IH [of w1 a1 s1] by (simp add: am)
qed

lemma analyzer_New_fields:
  "methodCounts (analyzer_New cfg) = Map.empty"
  "slowThreshold (analyzer_New cfg) = (if cfg_SlowThreshold cfg = 0 then Second else cfg_SlowThreshold cfg)"
  by (simp_all add: analyzer_New_def Let_def)

lemma Milliseconds_Second: "Milliseconds Second = 1000"
  by (simp add: Milliseconds_def Second_def quo_def)

text \<open>
  The analyzer counts, per method, the request Messages it has processed: processing a
  Message with a non-empty method \<open>m\<close> yields a \<open>retry_loop\<close> insight exactly when the
  number of request Messages with method \<open>m\<close> processed so far (the current Message
  included when it is a request) is a positive multiple of 5.
\<close>

lemma retry_loop_counts_requests:
  "case feed js w0 (analyzer_New cfg) s0 history of
     (a, s, w) \<Rightarrow>
       filter (\<lambda>v. fst v = ''retry_loop'')
         (map insight_view (fst (AnalyzeMessage js w a s msg))) =
       (let n = int (length (filter (\<lambda>x. Direction x = ''request'' \<and> Method x = Method msg)
                               (history @ [msg])))
        in if Method msg \<noteq> [] \<and> 0 < n \<and> n mod 5 = 0
           then [(''retry_loop'', ''warning'', ''Potential Retry Loop Detected'',
                  MarshalIndent js
                    (JObject [(''method'', JString (Method msg)), (''call_count'', JInt n),
                              (''suggestion'',
                               JString ''Check for proper error handling and backoff logic'')]),
                  ID msg)]
           else [])"
proof -
  obtain a s w where f: "feed js w0 (analyzer_New cfg) s0 history = (a, s, w)"
    by (cases "feed js w0 (analyzer_New cfg) s0 history")
  have cnt: "map_get (methodCounts a) m =
               int (length (filter (\<lambda>x. Direction x = ''request'' \<and> Method x = m) history))" for m
    using feed_methodCounts [of js w0 "analyzer_New cfg" s0 history m]
    by (simp add: f analyzer_New_fields map_get_def)
  show ?thesis
    by (simp add: f AnalyzeMessage_retry map_get_incr cnt Let_def formatRetryLoopDetails_def
        formatDetails_def)
qed

text \<open>
  Claim C6, as amended. With the default threshold of 1,000 ms (the configured threshold
  left at zero, which \<open>New\<close> replaces by one second, or set to one second, as the
  command does), at any point of a trace, processing a response Message
  whose duration is greater than 1,000 ms yields exactly one insight of category
  \<open>slow_response\<close>: a warning tied to the Message, whose details are the JSON object
  with the members \<open>duration_ms\<close>, \<open>url\<close>, \<open>method\<close> and \<open>suggestion\<close>. Processing
  a response whose duration is at most 1,000 ms, or a request, yields none.
\<close>

theorem slow_response_above_default_threshold:
  assumes "cfg_SlowThreshold cfg = 0 \<or> cfg_SlowThreshold cfg = Second"
  shows "case feed js w0 (analyzer_New cfg) s0 history of
     (a, s, w) \<Rightarrow>
       filter (\<lambda>v. fst v = ''slow_response'')
         (map insight_view (fst (AnalyzeMessage js w a s msg))) =
       (if Direction msg = ''response'' \<and> 1000 < DurationMs msg
        then [(''slow_response'', ''warning'', ''Slow Response Detected'',
               MarshalIndent js
                 (JObject [(''duration_ms'', JInt (DurationMs msg)),
                           (''url'', JString (URL msg)),
                           (''method'', JString (Method msg)),
                           (''suggestion'',
                            JString ''Consider adding timeout handling or investigating agent performance'')]),
               ID msg)]
        else [])"
proof -
  obtain a s w where f: "feed js w0 (analyzer_New cfg) s0 history = (a, s, w)"
    by (cases "feed js w0 (analyzer_New cfg) s0 history")
  have "slowThreshold a = Second"
    using feed_slowThreshold [of js w0 "analyzer_New cfg" s0 history] assms
    by (auto simp: f analyzer_New_fields)
  then show ?thesis
    by (simp add: f AnalyzeMessage_slow Milliseconds_Second formatSlowResponseDetails_def
        formatDetails_def)
qed

lemma create_request_fields:
  "Direction (create_request k) = ''request''" "Method (create_request k) = ''tasks/create''"
  "ID (create_request k) = ''7a1d3c44-90ab-4e2f-8b6d-00000000000'' @ [digit_char k]"
  by (simp_all add: create_request_def Message_zero_def)

text \<open>
  Every Message the proxy hands to \<open>onMessage\<close>, in any state and for any request and
  upstream behaviour, is a request or carries no method.
\<close>

lemma notify_message_ok: "method_on_request_only x \<Longrightarrow> list_all event_ok (notify_message p x)"
  by (simp add: notify_message_def event_ok_def)

lemma notify_agent_ok: "list_all event_ok (notify_agent p a)"
  by (simp add: notify_agent_def event_ok_def)

lemma SaveMessage_keeps:
  "Method (fst (snd (SaveMessage w s m))) = Method m"
  "Direction (fst (snd (SaveMessage w s m))) = Direction m"
  by (simp_all add: SaveMessage_def uuid_New_def Let_def)

lemma capture_request_events: "list_all event_ok (fst (snd (snd (capture_request js p w s r reqBody))))"
proof (cases "IsA2ARequest r \<or> reqBody \<noteq> []")
  case True
  have "Direction (request_of js p r reqBody t u) = ''request''" for t u
    by (simp add: request_of_def ParseRequest_Direction)
  then show ?thesis
    by (simp add: capture_request_captured [OF True] notify_message_ok method_on_request_only_def)
next
  case False
  then show ?thesis by (simp add: capture_request_skipped)
qed

lemma upstream_failed_events:
  "list_all event_ok (fst (snd (snd (upstream_failed p w s t qopt st e))))"
proof (cases qopt)
  case None
  then show ?thesis by (simp add: upstream_failed_def)
next
  case (Some q)
  have "Method (failure_of p t q e a b c) = []" for a b c
    by (simp add: failure_of_def Message_zero_def)
  then show ?thesis
    unfolding Some upstream_failed_captured
    by (simp add: notify_message_ok method_on_request_only_def)
qed

lemma capture_response_events:
  "list_all event_ok (fst (snd (capture_response js p w s r t qopt resp body d)))"
proof (cases qopt)
  case None
  then show ?thesis by (simp add: capture_response_def)
next
  case (Some q)
  obtain m w1 where pr: "ParseResponse js w resp body q d = (m, w1)"
    by (cases "ParseResponse js w resp body q d")
  obtain ok m1 s1 w2 where sm: "SaveMessage w1 s m = (ok, m1, s1, w2)"
    by (cases "SaveMessage w1 s m")
  have "Method m = []"
    using ParseResponse_fields(6) [of js w resp body q d] by (simp add: pr)
  then have "Method m1 = []"
    using SaveMessage_keeps(1) [of w1 s m] by (simp add: sm)
  then have ev: "list_all event_ok (notify_message p m1)"
    by (simp add: notify_message_ok method_on_request_only_def)
  show ?thesis
  proof (cases "Contains (req_Path r) ''/.well-known/agent.json''")
    case False
    then show ?thesis
      using ev by (simp add: Some capture_response_def pr sm)
  next
    case True
    obtain ao w3 where pa: "ParseAgentCard js w2 body t = (ao, w3)"
      by (cases "ParseAgentCard js w2 body t")
    show ?thesis
    proof (cases ao)
      case None
      then show ?thesis
        using True ev by (simp add: Some capture_response_def pr sm pa)
    next
      case (Some a0)
      obtain ok2 a1 s2 w4 where sa: "SaveAgent w3 s1 a0 = (ok2, a1, s2, w4)"
        by (cases "SaveAgent w3 s1 a0")
      show ?thesis
        using True ev
        by (simp add: \<open>qopt = Some q\<close> capture_response_def pr sm pa Some sa notify_agent_ok)
    qed
  qed
qed

lemma handleProxy_events:
  "list_all event_ok (fst (snd (snd (handleProxy js p w s r out))))"
proof (cases "req_Method r = ''CONNECT''")
  case True
  then show ?thesis by (simp add: handleProxy_def)
next
  case nc: False
  show ?thesis
  proof (cases "ReadBody (req_Body r)")
    case None
    then show ?thesis using nc by (simp add: handleProxy_def Let_def)
  next
    case (Some rb)
    obtain reqBody nb where rb: "rb = (reqBody, nb)" by (cases rb)
    obtain qo s1 evs1 w1 where cr: "capture_request js p w s r reqBody = (qo, s1, evs1, w1)"
      by (cases "capture_request js p w s r reqBody")
    have e1: "list_all event_ok evs1"
      using capture_request_events [of js p w s r reqBody] by (simp add: cr)
    obtain st w2 where tn: "time_Now w1 = (st, w2)"
      by (cases "time_Now w1")
    let ?t = "if \<not> HasPrefix (req_URL r) ''http''
              then ''http://'' @ req_Host r @ req_RequestURI r else req_URL r"
    show ?thesis
    proof (cases "NewRequest_error out")
      case (Some err)
      then show ?thesis
        using nc e1 by (simp add: handleProxy_def Let_def \<open>ReadBody (req_Body r) = Some rb\<close> rb cr tn)
    next
      case None
      show ?thesis
      proof (cases "Do_result out")
        case (Failed e)
        obtain rep s2 evs w3 where uf: "upstream_failed p w2 s1 ?t qo st e = (rep, s2, evs, w3)"
          by (cases "upstream_failed p w2 s1 ?t qo st e")
        have "list_all event_ok evs"
          using upstream_failed_events [of p w2 s1 ?t qo st e] by (simp add: uf)
        then show ?thesis
          using nc e1 None Failed uf
          by (simp add: handleProxy_def Let_def \<open>ReadBody (req_Body r) = Some rb\<close> rb cr tn)
      next
        case (Responded resp)
        obtain d w3 where ts: "time_Since w2 st = (d, w3)"
          by (cases "time_Since w2 st")
        show ?thesis
        proof (cases "resp_Body resp")
          case None
          then show ?thesis
            using nc e1 \<open>NewRequest_error out = None\<close> Responded
            by (simp add: handleProxy_def Let_def \<open>ReadBody (req_Body r) = Some rb\<close> rb cr tn ts)
        next
          case (Some body)
          obtain s2 evs w4 where cp:
            "capture_response js p w3 s1 r ?t qo resp body d = (s2, evs, w4)"
            by (cases "capture_response js p w3 s1 r ?t qo resp body d")
          have "list_all event_ok evs"
            using capture_response_events [of js p w3 s1 r ?t qo resp body d] by (simp add: cp)
          then show ?thesis
            using nc e1 \<open>NewRequest_error out = None\<close> Responded Some cp
            by (simp add: handleProxy_def Let_def \<open>ReadBody (req_Body r) = Some rb\<close> rb cr tn ts)
        qed
      qed
    qed
  qed
qed

text \<open>
  Claim C5. Within a trace in which only requests carry a method, as in every trace the
  proxy feeds to the analyzer (\<open>handleProxy_events\<close>), processing a Message with a
  non-empty method \<open>m\<close> yields a \<open>retry_loop\<close> insight exactly when the Message is the
  \<open>n\<close>-th Message of the trace carrying \<open>m\<close> for \<open>n\<close> a multiple of 5 (the 5th, 10th,
  15th, ...); there is then exactly one, a warning tied to the Message, whose details
  name \<open>m\<close> and the count \<open>n\<close>. Any other Message, and any Message with an empty
  method, yields none.
\<close>

theorem retry_loop_every_fifth_message:
  assumes "\<forall>x \<in> set (history @ [msg]). method_on_request_only x"
  shows "case feed js w0 (analyzer_New cfg) s0 history of
     (a, s, w) \<Rightarrow>
       filter (\<lambda>v. fst v = ''retry_loop'')
         (map insight_view (fst (AnalyzeMessage js w a s msg))) =
       (let n = int (length (filter (\<lambda>x. Method x = Method msg) (history @ [msg])))
        in if Method msg \<noteq> [] \<and> n mod 5 = 0
           then [(''retry_loop'', ''warning'', ''Potential Retry Loop Detected'',
                  MarshalIndent js
                    (JObject [(''method'', JString (Method msg)), (''call_count'', JInt n),
                              (''suggestion'',
                               JString ''Check for proper error handling and backoff logic'')]),
                  ID msg)]
           else [])"
proof -
  define xs where "xs = history @ [msg]"
  obtain a s w where f: "feed js w0 (analyzer_New cfg) s0 history = (a, s, w)"
    by (cases "feed js w0 (analyzer_New cfg) s0 history")
  have h: "filter (\<lambda>v. fst v = ''retry_loop'')
             (map insight_view (fst (AnalyzeMessage js w a s msg))) =
           (let n = int (length (filter (\<lambda>x. Direction x = ''request'' \<and> Method x = Method msg) xs))
            in if Method msg \<noteq> [] \<and> 0 < n \<and> n mod 5 = 0
               then [(''retry_loop'', ''warning'', ''Potential Retry Loop Detected'',
                      MarshalIndent js
                        (JObject [(''method'', JString (Method msg)), (''call_count'', JInt n),
                                  (''suggestion'',
                                   JString ''Check for proper error handling and backoff logic'')]),
                      ID msg)]
               else [])"
    using retry_loop_counts_requests
      [where js = js and ?w0.0 = w0 and cfg = cfg and ?s0.0 = s0 and history = history
         and msg = msg]
    unfolding f prod.case xs_def .
  have same: "filter (\<lambda>x. Direction x = ''request'' \<and> Method x = Method msg) xs
                = filter (\<lambda>x. Method x = Method msg) xs" if "Method msg \<noteq> []"
  proof (rule filter_cong [OF refl])
    fix x assume "x \<in> set xs"
    then have "method_on_request_only x"
      using assms by (auto simp: xs_def)
    then show "(Direction x = ''request'' \<and> Method x = Method msg) = (Method x = Method msg)"
      using that by (auto simp: method_on_request_only_def)
  qed
  have pos: "0 < length (filter (\<lambda>x. Method x = Method msg) xs)"
    by (simp add: xs_def)
  have "filter (\<lambda>v. fst v = ''retry_loop'')
             (map insight_view (fst (AnalyzeMessage js w a s msg))) =
           (let n = int (length (filter (\<lambda>x. Method x = Method msg) xs))
            in if Method msg \<noteq> [] \<and> n mod 5 = 0
               then [(''retry_loop'', ''warning'', ''Potential Retry Loop Detected'',
                      MarshalIndent js
                        (JObject [(''method'', JString (Method msg)), (''call_count'', JInt n),
                                  (''suggestion'',
                                   JString ''Check for proper error handling and backoff logic'')]),
                      ID msg)]
               else [])"
  proof (cases "Method msg = []")
    case True
    then show ?thesis by (simp add: h Let_def)
  next
    case False
    show ?thesis
      using False pos by (simp add: h same [OF False] Let_def)
  qed
  then show ?thesis
    unfolding f prod.case xs_def .
qed

text \<open>
  Claim C5 at the fifth request with method \<open>tasks/create\<close> of a trace that also holds
  three responses.
\<close>

theorem retry_loop_every_fifth_message_witness:
  "case feed demo_json demo_world (analyzer_New demo_cfg) empty_store
          [create_request 0, timed_response 40, create_request 1, timed_response 45,
           create_request 2, create_request 3, timed_response 40] of
     (a, s, w) \<Rightarrow>
       filter (\<lambda>v. fst v = ''retry_loop'')
         (map insight_view (fst (AnalyzeMessage demo_json w a s (create_request 4)))) =
       [(''retry_loop'', ''warning'', ''Potential Retry Loop Detected'',
         MarshalIndent demo_json
           (JObject [(''method'', JString ''tasks/create''), (''call_count'', JInt 5),
                     (''suggestion'',
                      JString ''Check for proper error handling and backoff logic'')]),
         ''7a1d3c44-90ab-4e2f-8b6d-000000000004'')]"
proof -
  have t: "Method (timed_response ms) = []" "Direction (timed_response ms) = ''response''" for ms
    by (simp_all add: timed_response_def Message_zero_def)
  have h: "\<forall>x \<in> set ([create_request 0, timed_response 40, create_request 1, timed_response 45,
                         create_request 2, create_request 3, timed_response 40]
                        @ [create_request 4]). method_on_request_only x"
    by (simp add: method_on_request_only_def create_request_fields t)
  from retry_loop_every_fifth_message
    [OF h, where js = demo_json and ?w0.0 = demo_world and cfg = demo_cfg and ?s0.0 = empty_store]
  show ?thesis
    by (simp add: create_request_fields t Let_def digit_char_def split: prod.splits)
qed

text \<open>Claim C6, as amended, at a response that took 1,500 ms, the threshold left unset.\<close>

theorem slow_response_above_default_threshold_witness:
  "case feed demo_json demo_world (analyzer_New demo_cfg) empty_store [create_request 0] of
     (a, s, w) \<Rightarrow>
       filter (\<lambda>v. fst v = ''slow_response'')
         (map insight_view (fst (AnalyzeMessage demo_json w a s (timed_response 1500)))) =
       [(''slow_response'', ''warning'', ''Slow Response Detected'',
         MarshalIndent demo_json
           (JObject [(''duration_ms'', JInt 1500), (''url'', JString ''http://example/''),
                     (''method'', JString []),
                     (''suggestion'',
                      JString ''Consider adding timeout handling or investigating agent performance'')]),
         ''7a1d3c44-90ab-4e2f-8b6d-000000000008'')]"
proof -
  have h: "cfg_SlowThreshold demo_cfg = 0 \<or> cfg_SlowThreshold demo_cfg = Second"
    by (simp add: demo_cfg_def)
  from slow_response_above_default_threshold
    [OF h, where js = demo_json and ?w0.0 = demo_world and ?s0.0 = empty_store
       and history = "[create_request 0]" and msg = "timed_response 1500"]
  show ?thesis
    by (simp add: timed_response_def Message_zero_def split: prod.splits)
qed

text \<open>
  Claim C6 as stated fails at the threshold itself: a response that took exactly
  1,000 ms yields no \<open>slow_response\<close> insight.
\<close>

theorem slow_response_at_threshold_counterexample:
  "Direction (timed_response 1000) = ''response''
   \<and> DurationMs (timed_response 1000) = 1000
   \<and> slowThreshold (analyzer_New demo_cfg) = Second \<and> Milliseconds Second = 1000
   \<and> filter (\<lambda>v. fst v = ''slow_response'')
        (map insight_view
           (fst (AnalyzeMessage demo_json demo_world (analyzer_New demo_cfg) empty_store
                   (timed_response 1000)))) = []"
  by (simp add: AnalyzeMessage_slow analyzer_New_fields demo_cfg_def Milliseconds_Second
      timed_response_def Message_zero_def)

section \<open>Analyzer: summary\<close>

lemma int64_add_left: "int64 (int64 a + b) = int64 (a + b)"
proof -
  have "(int64 a + b + 2 ^ 63) mod 2 ^ 64 = ((a + 2 ^ 63) mod 2 ^ 64 + b) mod 2 ^ 64"
    by (simp add: int64_def)
  also have "\<dots> = (a + 2 ^ 63 + b) mod 2 ^ 64"
    by (rule mod_add_left_eq)
  finally show ?thesis
    by (simp add: int64_def ac_simps)
qed

lemma int64_id: "- (2 ^ 63) \<le> x \<Longrightarrow> x < 2 ^ 63 \<Longrightarrow> int64 x = x"
  by (simp add: int64_def)

lemma summary_loop_eq:
  "summary_loop msgs (t, e, sc) =
     ((if filter is_response msgs = [] then t
       else int64 (t + sum_list (map DurationMs (filter is_response msgs)))),
      e + int (length (filter (\<lambda>m. is_response m \<and> (Error m \<noteq> [] \<or> 400 \<le> StatusCode m)) msgs)),
      sc + int (length (filter (\<lambda>m. is_response m \<and> \<not> (Error m \<noteq> [] \<or> 400 \<le> StatusCode m)) msgs)))"
proof (induction msgs arbitrary: t e sc)
  case Nil
  then show ?case by simp
next
  case (Cons m rest)
  show ?case
  proof (cases "is_response m")
    case True
    then have d: "Direction m = ''response''" by (simp add: is_response_def)
    show ?thesis
      using True d Cons.IH by (simp add: int64_add_left add.assoc)
  next
    case False
    then have d: "Direction m \<noteq> ''response''" by (simp add: is_response_def)
    show ?thesis
      using False d Cons.IH by simp
  qed
qed

lemma length_filter_split:
  "int (length (filter (\<lambda>m. P m \<and> \<not> Q m) xs)) + int (length (filter (\<lambda>m. P m \<and> Q m) xs))
     = int (length (filter P xs))"
  by (induction xs) auto

lemma sum_list_insort_key:
  "sum_list (map f (insort_key k x xs)) = f x + sum_list (map f xs)"
  for f :: "'a \<Rightarrow> int"
  by (induction xs) auto

lemma sum_list_sort_key:
  "sum_list (map f (sort_key k xs)) = sum_list (map f xs)"
  for f :: "'a \<Rightarrow> int"
  by (induction xs) (auto simp: sum_list_insort_key)

lemma GetMessages_responses:
  "filter is_response (GetMessages s t) =
     sort_key Timestamp (filter (\<lambda>m. TraceID m = t \<and> Direction m = ''response'') (messages s))"
  by (simp add: GetMessages_def filter_sort is_response_def conj_commute)

lemma avg_duration_eq:
  "avg_duration_ms (GetSummary a s) =
     (if response_durations s (analyzer_traceID a) = [] then 0
      else quo (int64 (sum_list (response_durations s (analyzer_traceID a))))
             (int (length (response_durations s (analyzer_traceID a)))))"
proof -
  let ?msgs = "GetMessages s (analyzer_traceID a)"
  let ?ds = "response_durations s (analyzer_traceID a)"
  have len: "length (filter is_response ?msgs) = length ?ds"
    by (simp add: GetMessages_responses response_durations_def)
  have sum: "sum_list (map DurationMs (filter is_response ?msgs)) = sum_list ?ds"
    by (simp add: GetMessages_responses response_durations_def sum_list_sort_key)
  have empty: "filter is_response ?msgs = [] \<longleftrightarrow> ?ds = []"
    using len by (metis length_0_conv)
  have cnt: "int (length (filter (\<lambda>m. is_response m \<and> \<not> (Error m \<noteq> [] \<or> 400 \<le> StatusCode m)) ?msgs))
             + int (length (filter (\<lambda>m. is_response m \<and> (Error m \<noteq> [] \<or> 400 \<le> StatusCode m)) ?msgs))
             = int (length ?ds)"
    using length_filter_split [of is_response "\<lambda>m. Error m \<noteq> [] \<or> 400 \<le> StatusCode m" ?msgs]
    by (simp add: len)
  show ?thesis
    using cnt empty sum
    by (simp add: GetSummary_def Let_def summary_loop_eq int64_def del: filter.simps)
qed

text \<open>
  Claim C7. \<open>avg_duration_ms\<close> is zero when the trace has no response Message, and
  otherwise the sum of the durations of the trace's response Messages, accumulated in an
  \<^verbatim>\<open>int64\<close>, divided (truncating towards zero) by their number; requests and the
  messages of other traces enter neither the sum nor the count. Where the sum fits into
  an \<^verbatim>\<open>int64\<close> nothing wraps around, and where it is moreover not negative the quotient
  is the usual integer quotient.
\<close>

theorem avg_duration_over_responses:
  "avg_duration_ms (GetSummary a s) =
     (if response_durations s (analyzer_traceID a) = [] then 0
      else quo (int64 (sum_list (response_durations s (analyzer_traceID a))))
             (int (length (response_durations s (analyzer_traceID a)))))
   \<and> (- (2 ^ 63) \<le> sum_list (response_durations s (analyzer_traceID a))
        \<and> sum_list (response_durations s (analyzer_traceID a)) < 2 ^ 63
      \<longrightarrow> avg_duration_ms (GetSummary a s) =
            (if response_durations s (analyzer_traceID a) = [] then 0
             else quo (sum_list (response_durations s (analyzer_traceID a)))
                    (int (length (response_durations s (analyzer_traceID a))))))
   \<and> (0 \<le> sum_list (response_durations s (analyzer_traceID a))
        \<and> sum_list (response_durations s (analyzer_traceID a)) < 2 ^ 63
      \<longrightarrow> avg_duration_ms (GetSummary a s) =
            sum_list (response_durations s (analyzer_traceID a))
              div int (length (response_durations s (analyzer_traceID a))))"
proof -
  have q: "quo x (int n) = x div int n" if "0 \<le> x" for x n
    using that by (cases "n = 0") (auto simp: quo_def sgn_if)
  show ?thesis
    by (auto simp: avg_duration_eq int64_id q)
qed

text \<open>
  Claim C7 at a store with two requests, two responses of 40 and 45 ms, and a response
  of another trace: the average is 42 ms.
\<close>

theorem avg_duration_over_responses_witness:
  "avg_duration_ms (GetSummary (analyzer_New demo_cfg) summary_store) = 42"
proof -
  have ds: "response_durations summary_store (analyzer_traceID (analyzer_New demo_cfg)) = [40, 45]"
    by (simp add: response_durations_def summary_store_def analyzer_New_def demo_cfg_def
        create_request_def timed_response_def Message_zero_def)
  from avg_duration_over_responses [of "analyzer_New demo_cfg" summary_store]
  show ?thesis
    by (simp add: ds)
qed

section \<open>Supervisor: child environment\<close>

lemma SplitByte_nonempty: "SplitByte s c \<noteq> []"
proof (induction s)
  case Nil
  then show ?case by simp
next
  case (Cons x xs)
  then show ?case by (cases "SplitByte xs c") simp_all
qed

lemma hd_SplitByte_append: "c \<notin> set k \<Longrightarrow> hd (SplitByte (k @ c # v) c) = k"
proof (induction k)
  case Nil
  then show ?case by simp
next
  case (Cons x k)
  then have "hd (SplitByte (k @ c # v) c) = k" and "x \<noteq> c" by auto
  then show ?case
    using SplitByte_nonempty [of "k @ c # v" c]
    by (cases "SplitByte (k @ c # v) c") auto
qed

lemma env_key_entry: "CHR ''='' \<notin> set k \<Longrightarrow> env_key (k @ CHR ''='' # v) = k"
  using hd_SplitByte_append [of "CHR ''=''" k v] by (simp add: env_key_def)

lemma proxyVars_keys: "map fst (proxyVars p) = proxy_names"
  by (simp add: proxyVars_def proxy_names_def Let_def)

lemma proxy_names_distinct: "distinct proxy_names"
  by (simp add: proxy_names_def)

lemma proxy_names_no_equals: "k \<in> set proxy_names \<Longrightarrow> CHR ''='' \<notin> set k"
  by (auto simp: proxy_names_def)

lemma proxyVars_key_set: "fst ` set (proxyVars p) = set proxy_names"
proof -
  have "fst ` set (proxyVars p) = set (map fst (proxyVars p))" by simp
  then show ?thesis by (simp only: proxyVars_keys)
qed

lemma map_of_proxyVars_None: "map_of (proxyVars p) k = None \<longleftrightarrow> k \<notin> set proxy_names"
  by (simp add: map_of_eq_None_iff proxyVars_key_set)

lemma filter_eq_single: "distinct xs \<Longrightarrow> y \<in> set xs \<Longrightarrow> filter (\<lambda>x. x = y) xs = [y]"
  by (induction xs) (auto simp: filter_empty_conv)

lemma buildEnv_key:
  assumes d: "distinct (range_order (proxyVars p))"
    and st: "set (range_order (proxyVars p)) = set (proxyVars p)"
    and kv: "(k, v) \<in> set (proxyVars p)"
  shows "filter (\<lambda>e. env_key e = k) (buildEnv range_order environ p) = [k @ ''='' @ v]"
proof -
  let ?vars = "proxyVars p"
  let ?entry = "\<lambda>(key, val). key @ ''='' @ val"
  have k_name: "k \<in> set proxy_names"
    using kv proxyVars_key_set [of p] by force
  have inherited: "filter (\<lambda>e. env_key e = k) (filter (\<lambda>e. map_of ?vars (env_key e) = None) environ) = []"
    using k_name by (auto simp: filter_empty_conv map_of_proxyVars_None)
  have key_of: "env_key (a @ CHR ''='' # b) = a" if "(a, b) \<in> set ?vars" for a b
  proof -
    have "a \<in> set proxy_names"
      using that proxyVars_key_set [of p] by force
    then show ?thesis
      by (simp add: env_key_entry proxy_names_no_equals)
  qed
  have uniq: "x = (k, v)" if mem: "x \<in> set ?vars" and fk: "fst x = k" for x
  proof -
    obtain v' where x: "x = (k, v')"
      using fk by (cases x) auto
    have "distinct (map fst ?vars)"
      by (simp add: proxyVars_keys proxy_names_distinct)
    then have "v' = v"
      using mem kv unfolding x by (rule eq_key_imp_eq_value)
    then show ?thesis by (simp add: x)
  qed
  have "filter (\<lambda>e. env_key e = k) (map ?entry xs) = map ?entry (filter (\<lambda>x. fst x = k) xs)"
    if "set xs \<subseteq> set ?vars" for xs
    using that by (induction xs) (auto simp: key_of)
  then have "filter (\<lambda>e. env_key e = k) (map ?entry (range_order ?vars))
          = map ?entry (filter (\<lambda>x. fst x = k) (range_order ?vars))"
    using st by simp
  also have "filter (\<lambda>x. fst x = k) (range_order ?vars)
               = filter (\<lambda>x. x = (k, v)) (range_order ?vars)"
  proof (rule filter_cong [OF refl])
    fix x assume "x \<in> set (range_order ?vars)"
    then have "x \<in> set ?vars" by (simp add: st)
    then show "(fst x = k) = (x = (k, v))"
      using uniq [of x] by auto
  qed
  also have "\<dots> = [(k, v)]"
    using d kv st by (intro filter_eq_single) simp_all
  finally have injected: "filter (\<lambda>e. env_key e = k) (map ?entry (range_order ?vars)) = [k @ ''='' @ v]"
    by simp
  show ?thesis
    using inherited injected by (simp add: buildEnv_def Let_def)
qed

lemma buildEnv_others:
  assumes st: "set (range_order (proxyVars p)) = set (proxyVars p)"
  shows "filter (\<lambda>e. env_key e \<notin> set proxy_names) (buildEnv range_order environ p)
           = filter (\<lambda>e. env_key e \<notin> set proxy_names) environ"
proof -
  let ?vars = "proxyVars p"
  let ?entry = "\<lambda>(key, val). key @ ''='' @ val"
  have key_of: "env_key (a @ CHR ''='' # b) \<in> set proxy_names" if "(a, b) \<in> set ?vars" for a b
  proof -
    have "a \<in> set proxy_names"
      using that proxyVars_key_set [of p] by force
    then show ?thesis
      by (simp add: env_key_entry proxy_names_no_equals)
  qed
  have "filter (\<lambda>e. env_key e \<notin> set proxy_names) (map ?entry (range_order ?vars)) = []"
    using key_of st by (force simp: filter_empty_conv)
  then show ?thesis
    by (simp add: buildEnv_def Let_def map_of_proxyVars_None)
qed

text \<open>
  Claim C8. Whatever the parent environment, the port and the order in which the map of
  proxy variables is visited (each entry once), the child environment holds, for each of
  the nine injected names, exactly one entry with that key, and it is the injected one:
  \<open>HTTP_PROXY\<close>, \<open>http_proxy\<close>, \<open>HTTPS_PROXY\<close>, \<open>https_proxy\<close> and \<open>A2A_PROXY\<close> set to
  \<open>http://127.0.0.1:\<close> followed by the port in decimal, \<open>NO_PROXY\<close> and \<open>no_proxy\<close>
  set to the empty string, \<open>A2A_TRACE\<close> set to \<open>1\<close>, and \<open>A2A_TRACE_UI\<close> set to the
  proxy URL followed by \<open>/ui\<close>. The entries with any other key are those of the parent
  environment, in their order.
\<close>

theorem buildEnv_proxy_variables:
  assumes "distinct (range_order (proxyVars p))"
    and "set (range_order (proxyVars p)) = set (proxyVars p)"
  shows "let env = buildEnv range_order environ p; url = ''http://127.0.0.1:'' @ Itoa p in
           filter (\<lambda>e. env_key e = ''HTTP_PROXY'') env = [''HTTP_PROXY='' @ url]
           \<and> filter (\<lambda>e. env_key e = ''http_proxy'') env = [''http_proxy='' @ url]
           \<and> filter (\<lambda>e. env_key e = ''HTTPS_PROXY'') env = [''HTTPS_PROXY='' @ url]
           \<and> filter (\<lambda>e. env_key e = ''https_proxy'') env = [''https_proxy='' @ url]
           \<and> filter (\<lambda>e. env_key e = ''NO_PROXY'') env = [''NO_PROXY='']
           \<and> filter (\<lambda>e. env_key e = ''no_proxy'') env = [''no_proxy='']
           \<and> filter (\<lambda>e. env_key e = ''A2A_PROXY'') env = [''A2A_PROXY='' @ url]
           \<and> filter (\<lambda>e. env_key e = ''A2A_TRACE'') env = [''A2A_TRACE=1'']
           \<and> filter (\<lambda>e. env_key e = ''A2A_TRACE_UI'') env = [''A2A_TRACE_UI='' @ url @ ''/ui'']
           \<and> filter (\<lambda>e. env_key e \<notin> set proxy_names) env
               = filter (\<lambda>e. env_key e \<notin> set proxy_names) environ"
proof -
  note key = buildEnv_key [of range_order p _ _ environ, OF assms]
  have m: "(''HTTP_PROXY'', ''http://127.0.0.1:'' @ Itoa p) \<in> set (proxyVars p)"
    "(''http_proxy'', ''http://127.0.0.1:'' @ Itoa p) \<in> set (proxyVars p)"
    "(''HTTPS_PROXY'', ''http://127.0.0.1:'' @ Itoa p) \<in> set (proxyVars p)"
    "(''https_proxy'', ''http://127.0.0.1:'' @ Itoa p) \<in> set (proxyVars p)"
    "(''NO_PROXY'', []) \<in> set (proxyVars p)"
    "(''no_proxy'', []) \<in> set (proxyVars p)"
    "(''A2A_PROXY'', ''http://127.0.0.1:'' @ Itoa p) \<in> set (proxyVars p)"
    "(''A2A_TRACE'', ''1'') \<in> set (proxyVars p)"
    "(''A2A_TRACE_UI'', ''http://127.0.0.1:'' @ Itoa p @ ''/ui'') \<in> set (proxyVars p)"
    by (simp_all add: proxyVars_def Let_def)
  define env where "env = buildEnv range_order environ p"
  define url where "url = ''http://127.0.0.1:'' @ Itoa p"
  have c1: "filter (\<lambda>e. env_key e = ''HTTP_PROXY'') env = [''HTTP_PROXY='' @ url]"
    using key [OF m(1)] by (simp add: env_def url_def)
  have c2: "filter (\<lambda>e. env_key e = ''http_proxy'') env = [''http_proxy='' @ url]"
    using key [OF m(2)] by (simp add: env_def url_def)
  have c3: "filter (\<lambda>e. env_key e = ''HTTPS_PROXY'') env = [''HTTPS_PROXY='' @ url]"
    using key [OF m(3)] by (simp add: env_def url_def)
  have c4: "filter (\<lambda>e. env_key e = ''https_proxy'') env = [''https_proxy='' @ url]"
    using key [OF m(4)] by (simp add: env_def url_def)
  have c5: "filter (\<lambda>e. env_key e = ''NO_PROXY'') env = [''NO_PROXY='']"
    using key [OF m(5)] by (simp add: env_def)
  have c6: "filter (\<lambda>e. env_key e = ''no_proxy'') env = [''no_proxy='']"
    using key [OF m(6)] by (simp add: env_def)
  have c7: "filter (\<lambda>e. env_key e = ''A2A_PROXY'') env = [''A2A_PROXY='' @ url]"
    using key [OF m(7)] by (simp add: env_def url_def)
  have c8: "filter (\<lambda>e. env_key e = ''A2A_TRACE'') env = [''A2A_TRACE=1'']"
    using key [OF m(8)] by (simp add: env_def)
  have c9: "filter (\<lambda>e. env_key e = ''A2A_TRACE_UI'') env = [''A2A_TRACE_UI='' @ url @ ''/ui'']"
    using key [OF m(9)] by (simp add: env_def url_def)
  have c10: "filter (\<lambda>e. env_key e \<notin> set proxy_names) env
               = filter (\<lambda>e. env_key e \<notin> set proxy_names) environ"
    using buildEnv_others [of range_order p environ, OF assms(2)] by (simp add: env_def)
  show ?thesis
    unfolding Let_def env_def [symmetric] url_def [symmetric]
    by (intro conjI c1 c2 c3 c4 c5 c6 c7 c8 c9 c10)
qed

lemma Itoa_8080: "Itoa 8080 = ''8080''"
  by (simp add: Itoa_def digits.simps digit_char_def)

text \<open>
  Claim C8 at port 8080, for a parent environment that sets \<open>HTTP_PROXY\<close> and
  \<open>no_proxy\<close> and holds a bare \<open>A2A_TRACE\<close>, with the map visited in reverse order.
\<close>

theorem buildEnv_proxy_variables_witness:
  "filter (\<lambda>e. env_key e = ''HTTP_PROXY'') (buildEnv rev parent_environ 8080)
     = [''HTTP_PROXY=http://127.0.0.1:8080'']
   \<and> filter (\<lambda>e. env_key e = ''no_proxy'') (buildEnv rev parent_environ 8080) = [''no_proxy='']
   \<and> filter (\<lambda>e. env_key e = ''A2A_TRACE'') (buildEnv rev parent_environ 8080) = [''A2A_TRACE=1'']
   \<and> filter (\<lambda>e. env_key e \<notin> set proxy_names) (buildEnv rev parent_environ 8080)
       = [''PATH=/usr/bin:/bin'', ''HOME=/root'']"
proof -
  have d: "distinct (rev (proxyVars 8080))"
    by (simp add: proxyVars_def Let_def)
  have s: "set (rev (proxyVars 8080)) = set (proxyVars 8080)"
    by simp
  have keys: "env_key ''PATH=/usr/bin:/bin'' = ''PATH''"
    "env_key ''HTTP_PROXY=http://corp-proxy:3128'' = ''HTTP_PROXY''"
    "env_key ''no_proxy=localhost'' = ''no_proxy''"
    "env_key ''HOME=/root'' = ''HOME''"
    "env_key ''A2A_TRACE'' = ''A2A_TRACE''"
    by (simp_all add: env_key_def)
  from buildEnv_proxy_variables [of rev 8080 parent_environ, OF d s]
  show ?thesis
    by (simp add: Let_def Itoa_8080 parent_environ_def keys proxy_names_def)
qed

end
